theory Spec2Isabelle
  imports Main "HOL-Library.Sublist"
begin

section \<open>Values of the Go program\<close>

subsection \<open>Errors\<close>

text \<open>
  A Go \<^verbatim>\<open>error\<close> is an interface value that may be \<^verbatim>\<open>nil\<close>: it is modelled as
  \<open>'e error option\<close>, with \<open>None\<close> for \<^verbatim>\<open>nil\<close>. An error produced by a cloud client
  is \<open>Base e\<close> for an opaque payload \<open>e\<close>; \<open>withMessage c m\<close> is the value that
  \<^verbatim>\<open>errors.Wrap\<close> of \<^verbatim>\<open>github.com/pkg/errors\<close> builds around the cause \<open>c\<close>. The
  stack trace that the library attaches as well is not kept.
\<close>

datatype 'e error = Base 'e | withMessage "'e error" string

text \<open>\<^verbatim>\<open>errors.Wrap(err, message)\<close>: \<^verbatim>\<open>nil\<close> stays \<^verbatim>\<open>nil\<close>, any other error is annotated.\<close>

definition Wrap :: "'e error option \<Rightarrow> string \<Rightarrow> 'e error option" where
  "Wrap err message =
     (case err of None \<Rightarrow> None | Some c \<Rightarrow> Some (withMessage c message))"

text \<open>
  \<^verbatim>\<open>errors.Wrapf(err, "failed to delete Bastion Host %s in resource group %s", a, b)\<close>:
  the format has two \<^verbatim>\<open>%s\<close> verbs, each replaced by its string argument.
\<close>

definition Wrapf_delete :: "'e error option \<Rightarrow> string \<Rightarrow> string \<Rightarrow> 'e error option" where
  "Wrapf_delete err a b =
     Wrap err (''failed to delete Bastion Host '' @ a @ '' in resource group '' @ b)"

text \<open>
  The \<^verbatim>\<open>Error()\<close> method: a wrapped error prints its message, a colon and a blank, and
  then its cause. How a client error prints is a parameter.
\<close>

fun Error :: "('e \<Rightarrow> string) \<Rightarrow> 'e error \<Rightarrow> string" where
  "Error pr (Base e) = pr e"
| "Error pr (withMessage c m) = m @ '': '' @ Error pr c"

text \<open>\<^verbatim>\<open>errors.Cause\<close>: the innermost error, underneath every annotation.\<close>

fun Cause :: "'e error \<Rightarrow> 'e error" where
  "Cause (Base e) = Base e"
| "Cause (withMessage c m) = Cause c"

subsection \<open>Strings\<close>

text \<open>
  A Go string is a sequence of bytes, here a \<open>string\<close>. \<^verbatim>\<open>strings.ToLower\<close> first looks
  for a byte from \<^verbatim>\<open>utf8.RuneSelf\<close>, that is 128, on. When there is none, the string is
  ASCII: \<^verbatim>\<open>'a' - 'A'\<close>, that is 32, is added to each of the letters \<^verbatim>\<open>A\<close> to \<^verbatim>\<open>Z\<close> and
  every other byte is kept. Otherwise the result is \<^verbatim>\<open>strings.Map(unicode.ToLower, s)\<close>,
  which decodes the string as UTF-8 and maps each code point through the case tables
  of the Unicode library: letters of every alphabet are lower-cased, a byte that is not
  valid UTF-8 is replaced, and the length of the string may change. This function of
  the library is the parameter \<open>mapToLower\<close>.
\<close>

definition isASCII :: "string \<Rightarrow> bool" where
  "isASCII s = list_all (\<lambda>c. (of_char c :: nat) < 128) s"

definition toLowerByte :: "char \<Rightarrow> char" where
  "toLowerByte c =
     (let n = (of_char c :: nat) in if 65 \<le> n \<and> n \<le> 90 then char_of (n + 32) else c)"

definition ToLower :: "(string \<Rightarrow> string) \<Rightarrow> string \<Rightarrow> string" where
  "ToLower mapToLower s = (if isASCII s then map toLowerByte s else mapToLower s)"

subsection \<open>Resources of the network SDK\<close>

text \<open>
  Only the fields that the service reads or writes are kept. A pointer field is an
  \<open>option\<close>; \<^verbatim>\<open>to.StringPtr s\<close> is \<open>Some s\<close>.
\<close>

datatype IPAllocationMethod = Dynamic | Static
datatype IPVersion = IPv4 | IPv6
datatype PublicIPAddressSkuName = PublicIPAddressSkuNameBasic | PublicIPAddressSkuNameStandard

record Subnet =
  Subnet_ID :: "string option"

record PublicIPAddressSku =
  Sku_Name :: PublicIPAddressSkuName

record PublicIPAddressDNSSettings =
  DomainNameLabel :: "string option"

record PublicIPAddressPropertiesFormat =
  PublicIPAddressVersion :: IPVersion
  PublicIPAllocationMethod :: IPAllocationMethod
  DNSSettings :: "PublicIPAddressDNSSettings option"

record PublicIPAddress =
  Sku :: "PublicIPAddressSku option"
  PublicIP_Name :: "string option"
  PublicIP_Location :: "string option"
  PublicIP_ID :: "string option"
  PublicIP_Properties :: "PublicIPAddressPropertiesFormat option"

record SubResource =
  ID :: "string option"

record BastionHostIPConfigurationPropertiesFormat =
  IPConfig_Subnet :: "SubResource option"
  IPConfig_PublicIPAddress :: "SubResource option"
  PrivateIPAllocationMethod :: IPAllocationMethod

record BastionHostIPConfiguration =
  IPConfig_Name :: "string option"
  IPConfig_Properties :: "BastionHostIPConfigurationPropertiesFormat option"

record BastionHostPropertiesFormat =
  DNSName :: "string option"
  IPConfigurations :: "BastionHostIPConfiguration list option"

record 't BastionHost =
  BastionHost_Name :: "string option"
  BastionHost_Location :: "string option"
  Tags :: 't
  BastionHost_Properties :: "BastionHostPropertiesFormat option"

subsection \<open>The scope and the clients\<close>

record BastionSpec =
  Name :: string
  VNetName :: string
  SubnetName :: string
  PublicIPName :: string

datatype ResourceLifecycle = ResourceLifecycleOwned | ResourceLifecycleShared

record BuildParams =
  Build_ClusterName :: string
  Build_Lifecycle :: ResourceLifecycle
  Build_Name :: "string option"
  Build_Role :: "string option"

text \<open>
  The service holds a scope and three clients, all interfaces. The getters of the scope
  are fields; a client method is a function from the state \<open>'w\<close> of the cloud to its
  result and the next state of the cloud. The \<^verbatim>\<open>context\<close> argument carries no data
  and is left out, and so are the log lines written through \<^verbatim>\<open>Scope.V(2).Info\<close>,
  which return nothing.

  Two functions of other packages of the repository are parameters as well:
  \<^verbatim>\<open>azure.ResourceNotFound\<close>, the classifier of errors, and the composition
  \<^verbatim>\<open>converters.TagsToMap (infrav1.Build params)\<close>, which builds the tags of type \<open>'t\<close>.
  So is \<^verbatim>\<open>strings.Map(unicode.ToLower, s)\<close> of the Go library, which \<open>ToLower\<close> calls
  for a string that is not ASCII.
\<close>

record ('w, 'e, 't) Service =
  ResourceGroup :: string
  Location :: string
  ClusterName :: string
  BastionSpecs :: "BastionSpec list"
  SubnetsClient_Get ::
    "string \<Rightarrow> string \<Rightarrow> string \<Rightarrow> 'w \<Rightarrow> (Subnet \<times> 'e error option) \<times> 'w"
  PublicIPsClient_Get ::
    "string \<Rightarrow> string \<Rightarrow> 'w \<Rightarrow> (PublicIPAddress \<times> 'e error option) \<times> 'w"
  PublicIPsClient_CreateOrUpdate ::
    "string \<Rightarrow> string \<Rightarrow> PublicIPAddress \<Rightarrow> 'w \<Rightarrow> 'e error option \<times> 'w"
  Client_CreateOrUpdate ::
    "string \<Rightarrow> string \<Rightarrow> 't BastionHost \<Rightarrow> 'w \<Rightarrow> 'e error option \<times> 'w"
  Client_Delete ::
    "string \<Rightarrow> string \<Rightarrow> 'w \<Rightarrow> 'e error option \<times> 'w"
  ResourceNotFound :: "'e error option \<Rightarrow> bool"
  TagsToMap_Build :: "BuildParams \<Rightarrow> 't"
  Map_unicode_ToLower :: "string \<Rightarrow> string"

subsection \<open>The state of a run\<close>

text \<open>
  Every call of a client is recorded with its arguments and its answer, in the order
  of the calls. The state of a run is the state of the cloud and this record.
\<close>

datatype ('e, 't) event =
    is_SubnetsGet: SubnetsGet string string string "Subnet \<times> 'e error option"
  | is_PublicIPsGet: PublicIPsGet string string "PublicIPAddress \<times> 'e error option"
  | is_PublicIPsCreateOrUpdate:
      PublicIPsCreateOrUpdate string string PublicIPAddress "'e error option"
  | is_BastionHostsCreateOrUpdate:
      BastionHostsCreateOrUpdate string string "'t BastionHost" "'e error option"
  | is_BastionHostsDelete: BastionHostsDelete string string "'e error option"

record ('w, 'e, 't) state =
  world :: 'w
  trace :: "('e, 't) event list"

definition call_SubnetsGet ::
  "('w, 'e, 't) Service \<Rightarrow> string \<Rightarrow> string \<Rightarrow> string \<Rightarrow> ('w, 'e, 't) state
     \<Rightarrow> (Subnet \<times> 'e error option) \<times> ('w, 'e, 't) state" where
  "call_SubnetsGet s rg vnet sn st =
     (let (r, w) = SubnetsClient_Get s rg vnet sn (world st)
      in (r, \<lparr>world = w, trace = trace st @ [SubnetsGet rg vnet sn r]\<rparr>))"

definition call_PublicIPsGet ::
  "('w, 'e, 't) Service \<Rightarrow> string \<Rightarrow> string \<Rightarrow> ('w, 'e, 't) state
     \<Rightarrow> (PublicIPAddress \<times> 'e error option) \<times> ('w, 'e, 't) state" where
  "call_PublicIPsGet s rg n st =
     (let (r, w) = PublicIPsClient_Get s rg n (world st)
      in (r, \<lparr>world = w, trace = trace st @ [PublicIPsGet rg n r]\<rparr>))"

definition call_PublicIPsCreateOrUpdate ::
  "('w, 'e, 't) Service \<Rightarrow> string \<Rightarrow> string \<Rightarrow> PublicIPAddress \<Rightarrow> ('w, 'e, 't) state
     \<Rightarrow> 'e error option \<times> ('w, 'e, 't) state" where
  "call_PublicIPsCreateOrUpdate s rg n ip st =
     (let (r, w) = PublicIPsClient_CreateOrUpdate s rg n ip (world st)
      in (r, \<lparr>world = w, trace = trace st @ [PublicIPsCreateOrUpdate rg n ip r]\<rparr>))"

definition call_CreateOrUpdate ::
  "('w, 'e, 't) Service \<Rightarrow> string \<Rightarrow> string \<Rightarrow> 't BastionHost \<Rightarrow> ('w, 'e, 't) state
     \<Rightarrow> 'e error option \<times> ('w, 'e, 't) state" where
  "call_CreateOrUpdate s rg n bh st =
     (let (r, w) = Client_CreateOrUpdate s rg n bh (world st)
      in (r, \<lparr>world = w, trace = trace st @ [BastionHostsCreateOrUpdate rg n bh r]\<rparr>))"

definition call_Delete ::
  "('w, 'e, 't) Service \<Rightarrow> string \<Rightarrow> string \<Rightarrow> ('w, 'e, 't) state
     \<Rightarrow> 'e error option \<times> ('w, 'e, 't) state" where
  "call_Delete s rg n st =
     (let (r, w) = Client_Delete s rg n (world st)
      in (r, \<lparr>world = w, trace = trace st @ [BastionHostsDelete rg n r]\<rparr>))"

section \<open>The service\<close>

text \<open>
  A block of statements either returns from the function with a value or falls through
  to the statement after it, handing over what it has bound.
\<close>

datatype ('r, 'a) flow = Return 'r | Proceed 'a

subsection \<open>createBastionPublicIP\<close>

definition createBastionPublicIP ::
  "('w, 'e, 't) Service \<Rightarrow> string \<Rightarrow> ('w, 'e, 't) state
     \<Rightarrow> 'e error option \<times> ('w, 'e, 't) state" where
  "createBastionPublicIP s ipName st =
     call_PublicIPsCreateOrUpdate s (ResourceGroup s) ipName
       \<lparr>Sku = Some \<lparr>Sku_Name = PublicIPAddressSkuNameStandard\<rparr>,
        PublicIP_Name = Some ipName,
        PublicIP_Location = Some (Location s),
        PublicIP_ID = None,
        PublicIP_Properties = Some
          \<lparr>PublicIPAddressVersion = IPv4,
           PublicIPAllocationMethod = Static,
           DNSSettings = Some \<lparr>DomainNameLabel = Some (ToLower (Map_unicode_ToLower s) ipName)\<rparr>\<rparr>\<rparr>
       st"

subsection \<open>Reconcile\<close>

text \<open>The body of the loop of \<^verbatim>\<open>Reconcile\<close>, for one bastion specification.\<close>

definition Reconcile_body ::
  "('w, 'e, 't) Service \<Rightarrow> BastionSpec \<Rightarrow> ('w, 'e, 't) state
     \<Rightarrow> ('e error option, unit) flow \<times> ('w, 'e, 't) state" where
  "Reconcile_body s bastionSpec st =
     (let ((subnet, err), st1) =
            call_SubnetsGet s (ResourceGroup s) (VNetName bastionSpec) (SubnetName bastionSpec) st
      in
      if err \<noteq> None then (Return (Wrap err ''failed to get subnet''), st1)
      else
        let ((publicIP, err), st2) =
              call_PublicIPsGet s (ResourceGroup s) (PublicIPName bastionSpec) st1;
            (resolved, st5) =
              (if err \<noteq> None \<and> ResourceNotFound s err then
                 let (iperr, st3) = createBastionPublicIP s (PublicIPName bastionSpec) st2
                 in
                 if iperr \<noteq> None then
                   (Return (Wrap iperr ''failed to create bastion publicIP''), st3)
                 else
                   let ((publicIP, errPublicIP), st4) =
                         call_PublicIPsGet s (ResourceGroup s) (PublicIPName bastionSpec) st3
                   in
                   if errPublicIP \<noteq> None then
                     (Return (Wrap errPublicIP ''failed to get created publicIP''), st4)
                   else (Proceed publicIP, st4)
               else if err \<noteq> None then
                 (Return (Wrap err ''failed to get existing publicIP''), st2)
               else (Proceed publicIP, st2))
        in
        case resolved of
          Return r \<Rightarrow> (Return r, st5)
        | Proceed publicIP \<Rightarrow>
            let bastionHostIPConfigName = Name bastionSpec @ ''-'' @ ''bastionIP'';
                (err, st6) =
                  call_CreateOrUpdate s (ResourceGroup s) (Name bastionSpec)
                    \<lparr>BastionHost_Name = Some (Name bastionSpec),
                     BastionHost_Location = Some (Location s),
                     Tags = TagsToMap_Build s
                       \<lparr>Build_ClusterName = ClusterName s,
                        Build_Lifecycle = ResourceLifecycleOwned,
                        Build_Name = Some (Name bastionSpec),
                        Build_Role = Some ''Bastion''\<rparr>,
                     BastionHost_Properties = Some
                       \<lparr>DNSName = Some
                          (ToLower (Map_unicode_ToLower s) (Name bastionSpec) @ ''-bastion''),
                        IPConfigurations = Some
                          [\<lparr>IPConfig_Name = Some bastionHostIPConfigName,
                            IPConfig_Properties = Some
                              \<lparr>IPConfig_Subnet = Some \<lparr>ID = Subnet_ID subnet\<rparr>,
                               IPConfig_PublicIPAddress = Some \<lparr>ID = PublicIP_ID publicIP\<rparr>,
                               PrivateIPAllocationMethod = Static\<rparr>\<rparr>]\<rparr>\<rparr>
                    st5
            in
            if err \<noteq> None then (Return (Wrap err ''cannot create bastion host''), st6)
            else (Proceed (), st6))"

text \<open>The loop over the specifications, in the order of the list.\<close>

fun Reconcile_range ::
  "('w, 'e, 't) Service \<Rightarrow> BastionSpec list \<Rightarrow> ('w, 'e, 't) state
     \<Rightarrow> ('e error option, unit) flow \<times> ('w, 'e, 't) state" where
  "Reconcile_range s [] st = (Proceed (), st)"
| "Reconcile_range s (bastionSpec # rest) st =
     (case Reconcile_body s bastionSpec st of
        (Return r, st') \<Rightarrow> (Return r, st')
      | (Proceed u, st') \<Rightarrow> Reconcile_range s rest st')"

definition Reconcile ::
  "('w, 'e, 't) Service \<Rightarrow> ('w, 'e, 't) state \<Rightarrow> 'e error option \<times> ('w, 'e, 't) state" where
  "Reconcile s st =
     (case Reconcile_range s (BastionSpecs s) st of
        (Return r, st') \<Rightarrow> (r, st')
      | (Proceed u, st') \<Rightarrow> (None, st'))"

subsection \<open>Delete\<close>

definition Delete_body ::
  "('w, 'e, 't) Service \<Rightarrow> BastionSpec \<Rightarrow> ('w, 'e, 't) state
     \<Rightarrow> ('e error option, unit) flow \<times> ('w, 'e, 't) state" where
  "Delete_body s bastionSpec st =
     (let (err, st1) = call_Delete s (ResourceGroup s) (Name bastionSpec) st
      in
      if err \<noteq> None \<and> ResourceNotFound s err then (Return None, st1)
      else if err \<noteq> None then
        (Return (Wrapf_delete err (Name bastionSpec) (ResourceGroup s)), st1)
      else (Proceed (), st1))"

fun Delete_range ::
  "('w, 'e, 't) Service \<Rightarrow> BastionSpec list \<Rightarrow> ('w, 'e, 't) state
     \<Rightarrow> ('e error option, unit) flow \<times> ('w, 'e, 't) state" where
  "Delete_range s [] st = (Proceed (), st)"
| "Delete_range s (bastionSpec # rest) st =
     (case Delete_body s bastionSpec st of
        (Return r, st') \<Rightarrow> (Return r, st')
      | (Proceed u, st') \<Rightarrow> Delete_range s rest st')"

definition Delete ::
  "('w, 'e, 't) Service \<Rightarrow> ('w, 'e, 't) state \<Rightarrow> 'e error option \<times> ('w, 'e, 't) state" where
  "Delete s st =
     (case Delete_range s (BastionSpecs s) st of
        (Return r, st') \<Rightarrow> (r, st')
      | (Proceed u, st') \<Rightarrow> (None, st'))"

section \<open>A test double\<close>

text \<open>
  A small cloud to run the service on: the subnets, public IPs and bastion hosts that
  exist, and the clients that are out of order. A missing resource is answered with the
  status 404, a client that is out of order answers 500. When public IPs are slow, a
  created address is accepted but not visible to the next lookup. The test double does
  not choose what the Go library does with a string that is not ASCII: that function is
  its argument \<open>U\<close>.
\<close>

record cloud =
  subnets :: "(string \<times> string) list"
  publicIPs :: "string list"
  bastionHosts :: "string list"
  outage :: "string list"

definition subnet_of :: "string \<Rightarrow> Subnet" where
  "subnet_of sn = \<lparr>Subnet_ID = Some (''/subnets/'' @ sn)\<rparr>"

definition no_subnet :: Subnet where
  "no_subnet = \<lparr>Subnet_ID = None\<rparr>"

definition publicIP_of :: "string \<Rightarrow> PublicIPAddress" where
  "publicIP_of n =
     \<lparr>Sku = None, PublicIP_Name = Some n, PublicIP_Location = None,
      PublicIP_ID = Some (''/publicIPAddresses/'' @ n), PublicIP_Properties = None\<rparr>"

definition no_publicIP :: PublicIPAddress where
  "no_publicIP =
     \<lparr>Sku = None, PublicIP_Name = None, PublicIP_Location = None,
      PublicIP_ID = None, PublicIP_Properties = None\<rparr>"

definition fake ::
  "(string \<Rightarrow> string) \<Rightarrow> BastionSpec list \<Rightarrow> (cloud, nat, BuildParams) Service" where
  "fake U specs =
     \<lparr>ResourceGroup = ''rg'',
      Location = ''westus'',
      ClusterName = ''c1'',
      BastionSpecs = specs,
      SubnetsClient_Get = (\<lambda>rg vnet sn w.
        if ''subnets'' \<in> set (outage w) then ((no_subnet, Some (Base 500)), w)
        else if (vnet, sn) \<in> set (subnets w) then ((subnet_of sn, None), w)
        else ((no_subnet, Some (Base 404)), w)),
      PublicIPsClient_Get = (\<lambda>rg n w.
        if ''publicIPs.Get'' \<in> set (outage w) then ((no_publicIP, Some (Base 500)), w)
        else if n \<in> set (publicIPs w) then ((publicIP_of n, None), w)
        else ((no_publicIP, Some (Base 404)), w)),
      PublicIPsClient_CreateOrUpdate = (\<lambda>rg n ip w.
        if ''publicIPs.CreateOrUpdate'' \<in> set (outage w) then (Some (Base 500), w)
        else if ''publicIPs.slow'' \<in> set (outage w) then (None, w)
        else (None, w\<lparr>publicIPs := n # publicIPs w\<rparr>)),
      Client_CreateOrUpdate = (\<lambda>rg n bh w.
        if ''bastionHosts'' \<in> set (outage w) then (Some (Base 500), w)
        else (None, w\<lparr>bastionHosts := n # bastionHosts w\<rparr>)),
      Client_Delete = (\<lambda>rg n w.
        if ''bastionHosts'' \<in> set (outage w) then (Some (Base 500), w)
        else if n \<in> set (bastionHosts w)
        then (None, w\<lparr>bastionHosts := removeAll n (bastionHosts w)\<rparr>)
        else (Some (Base 404), w)),
      ResourceNotFound = (\<lambda>err. err = Some (Base 404)),
      TagsToMap_Build = (\<lambda>p. p),
      Map_unicode_ToLower = U\<rparr>"

definition b1 :: BastionSpec where
  "b1 = \<lparr>Name = ''B1'', VNetName = ''vnet1'', SubnetName = ''snet1'', PublicIPName = ''Pip1''\<rparr>"

definition b2 :: BastionSpec where
  "b2 = \<lparr>Name = ''B2'', VNetName = ''vnet1'', SubnetName = ''snet2'', PublicIPName = ''Pip2''\<rparr>"

definition b3 :: BastionSpec where
  "b3 = \<lparr>Name = ''B3'', VNetName = ''vnet1'', SubnetName = ''snet1'', PublicIPName = ''Pip3''\<rparr>"

definition cloud0 :: cloud where
  "cloud0 =
     \<lparr>subnets = [(''vnet1'', ''snet1'')], publicIPs = [], bastionHosts = [], outage = []\<rparr>"

text \<open>The payloads that the service sends, as the source writes them.\<close>

abbreviation publicIP_for :: "('w, 'e, 't) Service \<Rightarrow> string \<Rightarrow> PublicIPAddress" where
  "publicIP_for s ipName \<equiv>
     \<lparr>Sku = Some \<lparr>Sku_Name = PublicIPAddressSkuNameStandard\<rparr>,
      PublicIP_Name = Some ipName,
      PublicIP_Location = Some (Location s),
      PublicIP_ID = None,
      PublicIP_Properties = Some
        \<lparr>PublicIPAddressVersion = IPv4,
         PublicIPAllocationMethod = Static,
         DNSSettings = Some \<lparr>DomainNameLabel = Some (ToLower (Map_unicode_ToLower s) ipName)\<rparr>\<rparr>\<rparr>"

abbreviation bastionHost_for ::
  "('w, 'e, 't) Service \<Rightarrow> BastionSpec \<Rightarrow> Subnet \<Rightarrow> PublicIPAddress \<Rightarrow> 't BastionHost" where
  "bastionHost_for s b subnet publicIP \<equiv>
     \<lparr>BastionHost_Name = Some (Name b),
      BastionHost_Location = Some (Location s),
      Tags = TagsToMap_Build s
        \<lparr>Build_ClusterName = ClusterName s,
         Build_Lifecycle = ResourceLifecycleOwned,
         Build_Name = Some (Name b),
         Build_Role = Some ''Bastion''\<rparr>,
      BastionHost_Properties = Some
        \<lparr>DNSName = Some (ToLower (Map_unicode_ToLower s) (Name b) @ ''-bastion''),
         IPConfigurations = Some
           [\<lparr>IPConfig_Name = Some (Name b @ ''-bastionIP''),
             IPConfig_Properties = Some
               \<lparr>IPConfig_Subnet = Some \<lparr>ID = Subnet_ID subnet\<rparr>,
                IPConfig_PublicIPAddress = Some \<lparr>ID = PublicIP_ID publicIP\<rparr>,
                PrivateIPAllocationMethod = Static\<rparr>\<rparr>]\<rparr>\<rparr>"

section \<open>The shape of a run\<close>

lemmas call_defs =
  call_SubnetsGet_def call_PublicIPsGet_def call_PublicIPsCreateOrUpdate_def
  call_CreateOrUpdate_def call_Delete_def createBastionPublicIP_def

lemma Reconcile_body_cases
  [consumes 1, case_names subnet_fail lookup_fail create_fail refetch_fail created existing]:
  assumes "Reconcile_body s b st = (fl, st')"
  obtains
    (subnet_fail) subnet e w1 where
      "SubnetsClient_Get s (ResourceGroup s) (VNetName b) (SubnetName b) (world st)
         = ((subnet, Some e), w1)"
      "fl = Return (Some (withMessage e ''failed to get subnet''))"
      "st' = \<lparr>world = w1, trace = trace st @
         [SubnetsGet (ResourceGroup s) (VNetName b) (SubnetName b) (subnet, Some e)]\<rparr>"
  | (lookup_fail) subnet w1 p0 e w2 where
      "SubnetsClient_Get s (ResourceGroup s) (VNetName b) (SubnetName b) (world st)
         = ((subnet, None), w1)"
      "PublicIPsClient_Get s (ResourceGroup s) (PublicIPName b) w1 = ((p0, Some e), w2)"
      "\<not> ResourceNotFound s (Some e)"
      "fl = Return (Some (withMessage e ''failed to get existing publicIP''))"
      "st' = \<lparr>world = w2, trace = trace st @
         [SubnetsGet (ResourceGroup s) (VNetName b) (SubnetName b) (subnet, None),
          PublicIPsGet (ResourceGroup s) (PublicIPName b) (p0, Some e)]\<rparr>"
  | (create_fail) subnet w1 p0 e w2 ce w3 where
      "SubnetsClient_Get s (ResourceGroup s) (VNetName b) (SubnetName b) (world st)
         = ((subnet, None), w1)"
      "PublicIPsClient_Get s (ResourceGroup s) (PublicIPName b) w1 = ((p0, Some e), w2)"
      "ResourceNotFound s (Some e)"
      "PublicIPsClient_CreateOrUpdate s (ResourceGroup s) (PublicIPName b)
         (publicIP_for s (PublicIPName b)) w2 = (Some ce, w3)"
      "fl = Return (Some (withMessage ce ''failed to create bastion publicIP''))"
      "st' = \<lparr>world = w3, trace = trace st @
         [SubnetsGet (ResourceGroup s) (VNetName b) (SubnetName b) (subnet, None),
          PublicIPsGet (ResourceGroup s) (PublicIPName b) (p0, Some e),
          PublicIPsCreateOrUpdate (ResourceGroup s) (PublicIPName b)
            (publicIP_for s (PublicIPName b)) (Some ce)]\<rparr>"
  | (refetch_fail) subnet w1 p0 e w2 w3 p1 ge w4 where
      "SubnetsClient_Get s (ResourceGroup s) (VNetName b) (SubnetName b) (world st)
         = ((subnet, None), w1)"
      "PublicIPsClient_Get s (ResourceGroup s) (PublicIPName b) w1 = ((p0, Some e), w2)"
      "ResourceNotFound s (Some e)"
      "PublicIPsClient_CreateOrUpdate s (ResourceGroup s) (PublicIPName b)
         (publicIP_for s (PublicIPName b)) w2 = (None, w3)"
      "PublicIPsClient_Get s (ResourceGroup s) (PublicIPName b) w3 = ((p1, Some ge), w4)"
      "fl = Return (Some (withMessage ge ''failed to get created publicIP''))"
      "st' = \<lparr>world = w4, trace = trace st @
         [SubnetsGet (ResourceGroup s) (VNetName b) (SubnetName b) (subnet, None),
          PublicIPsGet (ResourceGroup s) (PublicIPName b) (p0, Some e),
          PublicIPsCreateOrUpdate (ResourceGroup s) (PublicIPName b)
            (publicIP_for s (PublicIPName b)) None,
          PublicIPsGet (ResourceGroup s) (PublicIPName b) (p1, Some ge)]\<rparr>"
  | (created) subnet w1 p0 e w2 w3 p1 w4 r w5 where
      "SubnetsClient_Get s (ResourceGroup s) (VNetName b) (SubnetName b) (world st)
         = ((subnet, None), w1)"
      "PublicIPsClient_Get s (ResourceGroup s) (PublicIPName b) w1 = ((p0, Some e), w2)"
      "ResourceNotFound s (Some e)"
      "PublicIPsClient_CreateOrUpdate s (ResourceGroup s) (PublicIPName b)
         (publicIP_for s (PublicIPName b)) w2 = (None, w3)"
      "PublicIPsClient_Get s (ResourceGroup s) (PublicIPName b) w3 = ((p1, None), w4)"
      "Client_CreateOrUpdate s (ResourceGroup s) (Name b) (bastionHost_for s b subnet p1) w4
         = (r, w5)"
      "fl = (if r \<noteq> None then Return (Wrap r ''cannot create bastion host'') else Proceed ())"
      "st' = \<lparr>world = w5, trace = trace st @
         [SubnetsGet (ResourceGroup s) (VNetName b) (SubnetName b) (subnet, None),
          PublicIPsGet (ResourceGroup s) (PublicIPName b) (p0, Some e),
          PublicIPsCreateOrUpdate (ResourceGroup s) (PublicIPName b)
            (publicIP_for s (PublicIPName b)) None,
          PublicIPsGet (ResourceGroup s) (PublicIPName b) (p1, None),
          BastionHostsCreateOrUpdate (ResourceGroup s) (Name b)
            (bastionHost_for s b subnet p1) r]\<rparr>"
  | (existing) subnet w1 p0 w2 r w3 where
      "SubnetsClient_Get s (ResourceGroup s) (VNetName b) (SubnetName b) (world st)
         = ((subnet, None), w1)"
      "PublicIPsClient_Get s (ResourceGroup s) (PublicIPName b) w1 = ((p0, None), w2)"
      "Client_CreateOrUpdate s (ResourceGroup s) (Name b) (bastionHost_for s b subnet p0) w2
         = (r, w3)"
      "fl = (if r \<noteq> None then Return (Wrap r ''cannot create bastion host'') else Proceed ())"
      "st' = \<lparr>world = w3, trace = trace st @
         [SubnetsGet (ResourceGroup s) (VNetName b) (SubnetName b) (subnet, None),
          PublicIPsGet (ResourceGroup s) (PublicIPName b) (p0, None),
          BastionHostsCreateOrUpdate (ResourceGroup s) (Name b)
            (bastionHost_for s b subnet p0) r]\<rparr>"
proof -
  obtain subnet err1 w1 where sg:
    "SubnetsClient_Get s (ResourceGroup s) (VNetName b) (SubnetName b) (world st)
       = ((subnet, err1), w1)"
    by (metis surj_pair)
  show thesis
  proof (cases err1)
    case (Some e)
    with sg assms show thesis
      by (intro subnet_fail[of subnet e w1])
         (auto simp: Reconcile_body_def call_SubnetsGet_def Wrap_def)
  next
    case None
    note sn = this
    obtain p0 err2 w2 where pg:
      "PublicIPsClient_Get s (ResourceGroup s) (PublicIPName b) w1 = ((p0, err2), w2)"
      by (metis surj_pair)
    show thesis
    proof (cases err2)
      case None
      obtain r w3 where bc:
        "Client_CreateOrUpdate s (ResourceGroup s) (Name b) (bastionHost_for s b subnet p0) w2
           = (r, w3)"
        by (metis surj_pair)
      from sg sn pg None bc assms show thesis
        by (intro existing[of subnet w1 p0 w2 r w3])
           (auto simp: Reconcile_body_def call_defs Let_def split: if_splits)
    next
      case (Some e)
      note lk = this
      show thesis
      proof (cases "ResourceNotFound s (Some e)")
        case False
        with sg sn pg lk assms show thesis
          by (intro lookup_fail[of subnet w1 p0 e w2])
             (auto simp: Reconcile_body_def call_defs Wrap_def Let_def)
      next
        case True
        obtain cr w3 where pc:
          "PublicIPsClient_CreateOrUpdate s (ResourceGroup s) (PublicIPName b)
             (publicIP_for s (PublicIPName b)) w2 = (cr, w3)"
          by (metis surj_pair)
        show thesis
        proof (cases cr)
          case (Some ce)
          with sg sn pg lk True pc assms show thesis
            by (intro create_fail[of subnet w1 p0 e w2 ce w3])
               (auto simp: Reconcile_body_def call_defs Wrap_def Let_def)
        next
          case None
          note cn = this
          obtain p1 err3 w4 where rf:
            "PublicIPsClient_Get s (ResourceGroup s) (PublicIPName b) w3 = ((p1, err3), w4)"
            by (metis surj_pair)
          show thesis
          proof (cases err3)
            case (Some ge)
            with sg sn pg lk True pc cn rf assms show thesis
              by (intro refetch_fail[of subnet w1 p0 e w2 w3 p1 ge w4])
                 (auto simp: Reconcile_body_def call_defs Wrap_def Let_def)
          next
            case None
            obtain r w5 where bc:
              "Client_CreateOrUpdate s (ResourceGroup s) (Name b)
                 (bastionHost_for s b subnet p1) w4 = (r, w5)"
              by (metis surj_pair)
            from sg sn pg lk True pc cn rf None bc assms show thesis
              by (intro created[of subnet w1 p0 e w2 w3 p1 w4 r w5])
                 (auto simp: Reconcile_body_def call_defs Let_def split: if_splits)
          qed
        qed
      qed
    qed
  qed
qed


lemma Reconcile_range_append:
  "Reconcile_range s (xs @ ys) st =
     (case Reconcile_range s xs st of
        (Return r, st') \<Rightarrow> (Return r, st')
      | (Proceed u, st') \<Rightarrow> Reconcile_range s ys st')"
  by (induction xs arbitrary: st) (auto split: prod.splits flow.splits)

lemma Delete_range_append:
  "Delete_range s (xs @ ys) st =
     (case Delete_range s xs st of
        (Return r, st') \<Rightarrow> (Return r, st')
      | (Proceed u, st') \<Rightarrow> Delete_range s ys st')"
  by (induction xs arbitrary: st) (auto split: prod.splits flow.splits)


section \<open>Reaching a specification\<close>

lemma Reconcile_at:
  assumes "BastionSpecs s = before @ b # rest"
      and "Reconcile_range s before st0 = (Proceed (), st)"
  shows "Reconcile s st0 =
     (case Reconcile_body s b st of
        (Return r, st') \<Rightarrow> (r, st')
      | (Proceed u, st') \<Rightarrow>
          (case Reconcile_range s rest st' of
             (Return r, fin) \<Rightarrow> (r, fin)
           | (Proceed u, fin) \<Rightarrow> (None, fin)))"
  using assms
  by (simp add: Reconcile_def Reconcile_range_append split: prod.splits flow.splits)

lemma Delete_at:
  assumes "BastionSpecs s = before @ b # rest"
      and "Delete_range s before st0 = (Proceed (), st)"
  shows "Delete s st0 =
     (case Delete_body s b st of
        (Return r, st') \<Rightarrow> (r, st')
      | (Proceed u, st') \<Rightarrow>
          (case Delete_range s rest st' of
             (Return r, fin) \<Rightarrow> (r, fin)
           | (Proceed u, fin) \<Rightarrow> (None, fin)))"
  using assms
  by (simp add: Delete_def Delete_range_append split: prod.splits flow.splits)

lemma Reconcile_body_Return:
  assumes "Reconcile_body s b st = (Return r, st')"
  shows "r \<noteq> None"
  using assms
  by (cases rule: Reconcile_body_cases) (auto simp: Wrap_def split: if_splits)

lemma Reconcile_range_Return:
  assumes "Reconcile_range s bs st = (Return r, fin)"
  shows "r \<noteq> None"
  using assms
proof (induction bs arbitrary: st)
  case Nil
  then show ?case by simp
next
  case (Cons b bs)
  obtain fl1 st1 where body: "Reconcile_body s b st = (fl1, st1)"
    by (metis surj_pair)
  show ?case
  proof (cases fl1)
    case (Return x)
    with Cons.prems body have "x = r" by simp
    with Return body show ?thesis
      using Reconcile_body_Return by blast
  next
    case (Proceed u)
    with Cons.prems body have "Reconcile_range s bs st1 = (Return r, fin)" by simp
    then show ?thesis by (rule Cons.IH)
  qed
qed

lemma Reconcile_body_prefix:
  assumes "Reconcile_body s b st = (fl, st')"
  shows "prefix (trace st) (trace st')"
  using assms
  by (cases rule: Reconcile_body_cases) simp_all

lemma Reconcile_range_prefix:
  assumes "Reconcile_range s bs st = (fl, fin)"
  shows "prefix (trace st) (trace fin)"
  using assms
proof (induction bs arbitrary: st)
  case Nil
  then show ?case by simp
next
  case (Cons b bs)
  obtain fl1 st1 where body: "Reconcile_body s b st = (fl1, st1)"
    by (metis surj_pair)
  note p1 = Reconcile_body_prefix [OF body]
  show ?case
  proof (cases fl1)
    case (Return x)
    with Cons.prems body have "fin = st1" by simp
    with p1 show ?thesis by simp
  next
    case (Proceed u)
    with Cons.prems body have "Reconcile_range s bs st1 = (fl, fin)" by simp
    from Cons.IH [OF this] p1 show ?thesis
      by (rule prefix_order.trans [rotated])
  qed
qed

lemma Reconcile_after_body:
  assumes specs: "BastionSpecs s = before @ b # rest"
      and reach: "Reconcile_range s before st0 = (Proceed (), st)"
      and step: "Reconcile_body s b st = (fl, st')"
  shows "prefix (trace st') (trace (snd (Reconcile s st0)))"
proof (cases fl)
  case (Return r)
  with step show ?thesis
    by (simp add: Reconcile_at [OF specs reach])
next
  case (Proceed u)
  obtain fl2 fin where rest: "Reconcile_range s rest st' = (fl2, fin)"
    by (metis surj_pair)
  from Proceed step rest have "snd (Reconcile s st0) = fin"
    by (simp add: Reconcile_at [OF specs reach] split: flow.splits)
  with Reconcile_range_prefix [OF rest] show ?thesis by simp
qed

lemma Reconcile_aborts:
  assumes specs: "BastionSpecs s = before @ b # rest"
      and reach: "Reconcile_range s before st0 = (Proceed (), st)"
      and step: "Reconcile_body s b st = (Return r, st')"
  shows "Reconcile s st0 = (r, st')"
  using step by (simp add: Reconcile_at [OF specs reach])

lemma Reconcile_range_single:
  "Reconcile_range s [b] st = Reconcile_body s b st"
  by (auto split: prod.splits flow.splits)

lemma Reconcile_range_take_Suc:
  assumes "i < length bs"
  shows "Reconcile_range s (take (Suc i) bs) st0 =
     (case Reconcile_range s (take i bs) st0 of
        (Return r, st') \<Rightarrow> (Return r, st')
      | (Proceed u, st) \<Rightarrow> Reconcile_body s (bs ! i) st)"
  using assms
  by (simp add: take_Suc_conv_app_nth Reconcile_range_append Reconcile_range_single
           del: Reconcile_range.simps split: prod.splits flow.splits)

lemma Reconcile_range_Proceed_iff:
  "(\<exists>fin. Reconcile_range s bs st0 = (Proceed (), fin)) =
     (\<forall>i<length bs. \<exists>st st'.
        Reconcile_range s (take i bs) st0 = (Proceed (), st) \<and>
        Reconcile_body s (bs ! i) st = (Proceed (), st'))"
proof (induction bs rule: rev_induct)
  case Nil
  then show ?case by simp
next
  case (snoc b bs)
  have run: "Reconcile_range s (bs @ [b]) st0 =
     (case Reconcile_range s bs st0 of
        (Return r, st') \<Rightarrow> (Return r, st')
      | (Proceed u, st) \<Rightarrow> Reconcile_body s b st)"
    by (simp add: Reconcile_range_append Reconcile_range_single del: Reconcile_range.simps
             split: prod.splits flow.splits)
  show ?case
  proof
    assume "\<exists>fin. Reconcile_range s (bs @ [b]) st0 = (Proceed (), fin)"
    then obtain fin where fin: "Reconcile_range s (bs @ [b]) st0 = (Proceed (), fin)" ..
    with run obtain st where st: "Reconcile_range s bs st0 = (Proceed (), st)"
      and last: "Reconcile_body s b st = (Proceed (), fin)"
      by (auto split: prod.splits flow.splits)
    from st snoc.IH have earlier: "\<forall>i<length bs. \<exists>st st'.
        Reconcile_range s (take i bs) st0 = (Proceed (), st) \<and>
        Reconcile_body s (bs ! i) st = (Proceed (), st')"
      by blast
    show "\<forall>i<length (bs @ [b]). \<exists>st st'.
        Reconcile_range s (take i (bs @ [b])) st0 = (Proceed (), st) \<and>
        Reconcile_body s ((bs @ [b]) ! i) st = (Proceed (), st')"
    proof (intro allI impI)
      fix i assume "i < length (bs @ [b])"
      then consider "i < length bs" | "i = length bs" by fastforce
      then show "\<exists>st st'.
        Reconcile_range s (take i (bs @ [b])) st0 = (Proceed (), st) \<and>
        Reconcile_body s ((bs @ [b]) ! i) st = (Proceed (), st')"
      proof cases
        case 1
        with earlier show ?thesis by (simp add: nth_append)
      next
        case 2
        with st last show ?thesis by (simp del: Reconcile_range.simps)
      qed
    qed
  next
    assume all: "\<forall>i<length (bs @ [b]). \<exists>st st'.
        Reconcile_range s (take i (bs @ [b])) st0 = (Proceed (), st) \<and>
        Reconcile_body s ((bs @ [b]) ! i) st = (Proceed (), st')"
    then have "length bs < length (bs @ [b]) \<longrightarrow> (\<exists>st st'.
        Reconcile_range s (take (length bs) (bs @ [b])) st0 = (Proceed (), st) \<and>
        Reconcile_body s ((bs @ [b]) ! length bs) st = (Proceed (), st'))"
      by (rule spec)
    then obtain st st' where "Reconcile_range s bs st0 = (Proceed (), st)"
      "Reconcile_body s b st = (Proceed (), st')"
      by auto
    with run show "\<exists>fin. Reconcile_range s (bs @ [b]) st0 = (Proceed (), fin)"
      by simp
  qed
qed

lemma Reconcile_nil_iff:
  "(fst (Reconcile s st0) = None) = (\<exists>fin. Reconcile_range s (BastionSpecs s) st0 = (Proceed (), fin))"
proof -
  obtain fl fin where run: "Reconcile_range s (BastionSpecs s) st0 = (fl, fin)"
    by (metis surj_pair)
  show ?thesis
  proof (cases fl)
    case (Return r)
    with run Reconcile_range_Return have "r \<noteq> None" by blast
    with Return run show ?thesis by (simp add: Reconcile_def)
  next
    case (Proceed u)
    with run show ?thesis by (simp add: Reconcile_def)
  qed
qed

section \<open>Calls made by a run\<close>

lemma Reconcile_body_lookups:
  assumes "Reconcile_body s b st = (fl, st')"
  shows "\<exists>a calls. trace st' = trace st @ calls \<and>
           filter is_SubnetsGet calls =
             [SubnetsGet (ResourceGroup s) (VNetName b) (SubnetName b) a]"
  using assms
  by (cases rule: Reconcile_body_cases) simp_all

lemma Reconcile_range_lookups:
  assumes "Reconcile_range s bs st = (fl, fin)"
  shows "\<exists>answers calls.
           length answers \<le> length bs \<and>
           trace fin = trace st @ calls \<and>
           filter is_SubnetsGet calls =
             map2 (\<lambda>b a. SubnetsGet (ResourceGroup s) (VNetName b) (SubnetName b) a) bs answers \<and>
           (fl = Proceed () \<longrightarrow> length answers = length bs)"
  using assms
proof (induction bs arbitrary: st)
  case Nil
  then show ?case by simp
next
  case (Cons b bs)
  let ?f = "\<lambda>b a. SubnetsGet (ResourceGroup s) (VNetName b) (SubnetName b) a"
  obtain fl1 st1 where body: "Reconcile_body s b st = (fl1, st1)"
    by (metis surj_pair)
  from Reconcile_body_lookups [OF body] obtain a c1 where
    c1: "trace st1 = trace st @ c1" "filter is_SubnetsGet c1 = [?f b a]"
    by blast
  show ?case
  proof (cases fl1)
    case (Return r)
    with Cons.prems body have "fin = st1" "fl = Return r" by simp_all
    with c1 have "length [a] \<le> length (b # bs) \<and>
           trace fin = trace st @ c1 \<and>
           filter is_SubnetsGet c1 = map2 ?f (b # bs) [a] \<and>
           (fl = Proceed () \<longrightarrow> length [a] = length (b # bs))"
      by simp
    then show ?thesis by blast
  next
    case (Proceed u)
    with Cons.prems body have "Reconcile_range s bs st1 = (fl, fin)" by simp
    from Cons.IH [OF this] obtain answers calls where
      ih: "length answers \<le> length bs" "trace fin = trace st1 @ calls"
          "filter is_SubnetsGet calls = map2 ?f bs answers"
          "fl = Proceed () \<longrightarrow> length answers = length bs"
      by blast
    with c1 have "length (a # answers) \<le> length (b # bs) \<and>
           trace fin = trace st @ (c1 @ calls) \<and>
           filter is_SubnetsGet (c1 @ calls) = map2 ?f (b # bs) (a # answers) \<and>
           (fl = Proceed () \<longrightarrow> length (a # answers) = length (b # bs))"
      by simp
    then show ?thesis by blast
  qed
qed

lemma Reconcile_lookups:
  "\<exists>answers calls.
     length answers \<le> length (BastionSpecs s) \<and>
     trace (snd (Reconcile s st0)) = trace st0 @ calls \<and>
     filter is_SubnetsGet calls =
       map2 (\<lambda>b a. SubnetsGet (ResourceGroup s) (VNetName b) (SubnetName b) a)
         (BastionSpecs s) answers \<and>
     (fst (Reconcile s st0) = None \<longrightarrow> length answers = length (BastionSpecs s))"
proof -
  obtain fl fin where run: "Reconcile_range s (BastionSpecs s) st0 = (fl, fin)"
    by (metis surj_pair)
  from Reconcile_range_lookups [OF run] obtain answers calls where
    ih: "length answers \<le> length (BastionSpecs s)" "trace fin = trace st0 @ calls"
        "filter is_SubnetsGet calls =
           map2 (\<lambda>b a. SubnetsGet (ResourceGroup s) (VNetName b) (SubnetName b) a)
             (BastionSpecs s) answers"
        "fl = Proceed () \<longrightarrow> length answers = length (BastionSpecs s)"
    by blast
  have fin: "snd (Reconcile s st0) = fin"
    using run by (simp add: Reconcile_def split: flow.splits)
  have "fst (Reconcile s st0) = None \<longrightarrow> fl = Proceed ()"
    using run Reconcile_range_Return [of s "BastionSpecs s" st0 _ fin]
    by (cases fl) (auto simp: Reconcile_def)
  with ih fin have all: "length answers \<le> length (BastionSpecs s) \<and>
     trace (snd (Reconcile s st0)) = trace st0 @ calls \<and>
     filter is_SubnetsGet calls =
       map2 (\<lambda>b a. SubnetsGet (ResourceGroup s) (VNetName b) (SubnetName b) a)
         (BastionSpecs s) answers \<and>
     (fst (Reconcile s st0) = None \<longrightarrow> length answers = length (BastionSpecs s))"
    by simp
  show ?thesis
    by (rule exI, rule exI, rule all)
qed

lemma Delete_body_trace:
  assumes "Delete_body s b st = (fl, st')"
  shows "\<exists>r. trace st' = trace st @ [BastionHostsDelete (ResourceGroup s) (Name b) r]"
  using assms
  by (auto simp: Delete_body_def call_Delete_def split: prod.splits if_splits)

lemma Delete_range_trace:
  assumes "Delete_range s bs st = (fl, fin)"
  shows "\<exists>evs. trace fin = trace st @ evs \<and>
           (\<forall>ev\<in>set evs. \<exists>b\<in>set bs. \<exists>r.
              ev = BastionHostsDelete (ResourceGroup s) (Name b) r)"
  using assms
proof (induction bs arbitrary: st)
  case Nil
  then show ?case by simp
next
  case (Cons b bs)
  obtain fl1 st1 where body: "Delete_body s b st = (fl1, st1)"
    by (metis surj_pair)
  from Delete_body_trace [OF body] obtain r
    where t1: "trace st1 = trace st @ [BastionHostsDelete (ResourceGroup s) (Name b) r]"
    by blast
  show ?case
  proof (cases fl1)
    case (Return x)
    with Cons.prems body have "fin = st1" by simp
    with t1 show ?thesis by auto
  next
    case (Proceed u)
    with Cons.prems body have "Delete_range s bs st1 = (fl, fin)" by simp
    from Cons.IH [OF this] obtain evs where
      evs: "trace fin = trace st1 @ evs"
           "\<forall>ev\<in>set evs. \<exists>b\<in>set bs. \<exists>r. ev = BastionHostsDelete (ResourceGroup s) (Name b) r"
      by blast
    have "trace fin = trace st @ (BastionHostsDelete (ResourceGroup s) (Name b) r # evs)"
      using evs(1) t1 by simp
    moreover have "\<forall>ev\<in>set (BastionHostsDelete (ResourceGroup s) (Name b) r # evs).
        \<exists>b'\<in>set (b # bs). \<exists>r. ev = BastionHostsDelete (ResourceGroup s) (Name b') r"
      using evs(2) by auto
    ultimately show ?thesis by blast
  qed
qed

section \<open>Facts about strings and the test double\<close>

lemma sublist_Wrapf_delete:
  fixes a b rest :: string
  shows "sublist a (''failed to delete Bastion Host '' @ a @ '' in resource group '' @ b @ rest)"
    and "sublist b (''failed to delete Bastion Host '' @ a @ '' in resource group '' @ b @ rest)"
proof -
  show "sublist a (''failed to delete Bastion Host '' @ a @ '' in resource group '' @ b @ rest)"
    by (rule sublist_appendI)
  have "sublist b ((''failed to delete Bastion Host '' @ a @ '' in resource group '') @ b @ rest)"
    by (rule sublist_appendI)
  then show "sublist b (''failed to delete Bastion Host '' @ a @ '' in resource group '' @ b @ rest)"
    by (simp only: append_assoc)
qed

lemma fake_simps:
  "ResourceGroup (fake U specs) = ''rg''"
  "Location (fake U specs) = ''westus''"
  "ClusterName (fake U specs) = ''c1''"
  "BastionSpecs (fake U specs) = specs"
  "Map_unicode_ToLower (fake U specs) = U"
  by (simp_all add: fake_def)

lemma fake_tags: "TagsToMap_Build (fake U specs) p = p"
  by (simp add: fake_def)

lemma spec_simps:
  "Name b1 = ''B1''" "VNetName b1 = ''vnet1''" "SubnetName b1 = ''snet1''"
  "PublicIPName b1 = ''Pip1''"
  "Name b2 = ''B2''" "VNetName b2 = ''vnet1''" "SubnetName b2 = ''snet2''"
  "PublicIPName b2 = ''Pip2''"
  "Name b3 = ''B3''" "VNetName b3 = ''vnet1''" "SubnetName b3 = ''snet1''"
  "PublicIPName b3 = ''Pip3''"
  by (simp_all add: b1_def b2_def b3_def)

lemma ToLower_ASCII:
  assumes "isASCII s"
  shows "ToLower mapToLower s = map toLowerByte s"
  using assms by (simp add: ToLower_def)

lemma ToLower_Pip1: "ToLower mapToLower ''Pip1'' = ''pip1''"
proof -
  have "isASCII ''Pip1''"
    by code_simp
  moreover have "map toLowerByte ''Pip1'' = ''pip1''"
    by code_simp
  ultimately show ?thesis
    by (simp only: ToLower_ASCII)
qed

lemma ToLower_B1: "ToLower mapToLower ''B1'' = ''b1''"
proof -
  have "isASCII ''B1''"
    by code_simp
  moreover have "map toLowerByte ''B1'' = ''b1''"
    by code_simp
  ultimately show ?thesis
    by (simp only: ToLower_ASCII)
qed

section \<open>Properties of Reconcile\<close>

text \<open>
  C1. Let the loop of \<open>Reconcile\<close> reach a specification whose subnet is found and whose
  public IP lookup fails with an error classified as not found. Then the next call is
  one create-or-update of the public IP, with the standard SKU, IP version 4, static
  allocation and, as DNS domain name label, the name of the public IP lower-cased by
  \<^verbatim>\<open>strings.ToLower\<close>; for an ASCII name this is the name with each of the letters
  \<^verbatim>\<open>A\<close> to \<^verbatim>\<open>Z\<close> replaced by its small letter, whatever the library does elsewhere. No
  other create-or-update of a public IP follows for this specification. If the creation
  fails, \<open>Reconcile\<close> returns its error wrapped with ``failed to create bastion
  publicIP'' and calls nothing more. If it succeeds, the public IP is fetched again; if
  that fails, \<open>Reconcile\<close> returns the error wrapped with ``failed to get created
  publicIP'' and calls nothing more; otherwise the only further call for this
  specification is the create-or-update of the bastion host.
\<close>

theorem Reconcile_creates_missing_publicIP:
  assumes specs: "BastionSpecs s = before @ bastionSpec # rest"
      and reach: "Reconcile_range s before st0 = (Proceed (), st)"
      and subnet: "SubnetsClient_Get s (ResourceGroup s) (VNetName bastionSpec)
                     (SubnetName bastionSpec) (world st) = ((subnet, None), w1)"
      and lookup: "PublicIPsClient_Get s (ResourceGroup s) (PublicIPName bastionSpec) w1
                     = ((p0, Some e), w2)"
      and notfound: "ResourceNotFound s (Some e)"
      and create: "PublicIPsClient_CreateOrUpdate s (ResourceGroup s) (PublicIPName bastionSpec)
                     \<lparr>Sku = Some \<lparr>Sku_Name = PublicIPAddressSkuNameStandard\<rparr>,
                      PublicIP_Name = Some (PublicIPName bastionSpec),
                      PublicIP_Location = Some (Location s),
                      PublicIP_ID = None,
                      PublicIP_Properties = Some
                        \<lparr>PublicIPAddressVersion = IPv4,
                         PublicIPAllocationMethod = Static,
                         DNSSettings = Some
                           \<lparr>DomainNameLabel = Some
                              (ToLower (Map_unicode_ToLower s) (PublicIPName bastionSpec))\<rparr>\<rparr>\<rparr>
                     w2 = (created, w3)"
      and refetch: "PublicIPsClient_Get s (ResourceGroup s) (PublicIPName bastionSpec) w3
                     = ((p1, fetched), w4)"
      and step: "Reconcile_body s bastionSpec st = (fl, st')"
  shows "(isASCII (PublicIPName bastionSpec) \<longrightarrow>
            ToLower (Map_unicode_ToLower s) (PublicIPName bastionSpec)
              = map toLowerByte (PublicIPName bastionSpec))
         \<and> (\<exists>later.
           trace st' = trace st @
             [SubnetsGet (ResourceGroup s) (VNetName bastionSpec) (SubnetName bastionSpec)
                (subnet, None),
              PublicIPsGet (ResourceGroup s) (PublicIPName bastionSpec) (p0, Some e),
              PublicIPsCreateOrUpdate (ResourceGroup s) (PublicIPName bastionSpec)
                \<lparr>Sku = Some \<lparr>Sku_Name = PublicIPAddressSkuNameStandard\<rparr>,
                 PublicIP_Name = Some (PublicIPName bastionSpec),
                 PublicIP_Location = Some (Location s),
                 PublicIP_ID = None,
                 PublicIP_Properties = Some
                   \<lparr>PublicIPAddressVersion = IPv4,
                    PublicIPAllocationMethod = Static,
                    DNSSettings = Some
                      \<lparr>DomainNameLabel = Some
                              (ToLower (Map_unicode_ToLower s) (PublicIPName bastionSpec))\<rparr>\<rparr>\<rparr>
                created] @ later
         \<and> filter is_PublicIPsCreateOrUpdate later = []
         \<and> (case created of
               Some ce \<Rightarrow>
                 later = [] \<and> world st' = w3 \<and>
                 Reconcile s st0 =
                   (Some (withMessage ce ''failed to create bastion publicIP''), st')
             | None \<Rightarrow>
                 (case fetched of
                    Some ge \<Rightarrow>
                      later = [PublicIPsGet (ResourceGroup s) (PublicIPName bastionSpec)
                                 (p1, Some ge)] \<and> world st' = w4 \<and>
                      Reconcile s st0 =
                        (Some (withMessage ge ''failed to get created publicIP''), st')
                  | None \<Rightarrow>
                      (\<exists>bh r. later =
                         [PublicIPsGet (ResourceGroup s) (PublicIPName bastionSpec) (p1, None),
                          BastionHostsCreateOrUpdate (ResourceGroup s) (Name bastionSpec) bh r]))))"
  using step
proof (cases rule: Reconcile_body_cases)
  case (subnet_fail subnet' e' w1')
  with subnet show ?thesis by simp
next
  case (lookup_fail subnet' w1' p0' e' w2')
  with subnet lookup notfound show ?thesis by simp
next
  case (create_fail subnet' w1' p0' e' w2' ce w3')
  with subnet lookup create have eqs: "subnet' = subnet" "w1' = w1" "p0' = p0" "e' = e" "w2' = w2"
      "created = Some ce" "w3' = w3"
    by simp_all
  from create_fail(5) have "Reconcile s st0 =
      (Some (withMessage ce ''failed to create bastion publicIP''), st')"
    using Reconcile_aborts [OF specs reach] step by simp
  with create_fail(6) eqs show ?thesis by (simp add: ToLower_ASCII)
next
  case (refetch_fail subnet' w1' p0' e' w2' w3' p1' ge w4')
  with subnet lookup create refetch
  have eqs: "subnet' = subnet" "w1' = w1" "p0' = p0" "e' = e" "w2' = w2"
      "created = None" "w3' = w3" "p1' = p1" "fetched = Some ge" "w4' = w4"
    by simp_all
  from refetch_fail(6) have "Reconcile s st0 =
      (Some (withMessage ge ''failed to get created publicIP''), st')"
    using Reconcile_aborts [OF specs reach] step by simp
  with refetch_fail(7) eqs show ?thesis by (simp add: ToLower_ASCII)
next
  case (created subnet' w1' p0' e' w2' w3' p1' w4' r w5)
  with subnet lookup create refetch
  have eqs: "subnet' = subnet" "w1' = w1" "p0' = p0" "e' = e" "w2' = w2"
      "created = None" "w3' = w3" "p1' = p1" "fetched = None" "w4' = w4"
    by simp_all
  with created(8) show ?thesis by (simp add: ToLower_ASCII)
next
  case (existing subnet' w1' p0' w2' r w3')
  with subnet lookup show ?thesis by simp
qed

theorem Reconcile_creates_missing_publicIP_witness:
  "\<forall>U.
   ((\<exists>later.
      trace (snd (Reconcile (fake U [b1]) \<lparr>world = cloud0, trace = []\<rparr>)) =
        [SubnetsGet ''rg'' ''vnet1'' ''snet1'' (subnet_of ''snet1'', None),
         PublicIPsGet ''rg'' ''Pip1'' (no_publicIP, Some (Base 404)),
         PublicIPsCreateOrUpdate ''rg'' ''Pip1''
           \<lparr>Sku = Some \<lparr>Sku_Name = PublicIPAddressSkuNameStandard\<rparr>,
            PublicIP_Name = Some ''Pip1'',
            PublicIP_Location = Some ''westus'',
            PublicIP_ID = None,
            PublicIP_Properties = Some
              \<lparr>PublicIPAddressVersion = IPv4,
               PublicIPAllocationMethod = Static,
               DNSSettings = Some \<lparr>DomainNameLabel = Some ''pip1''\<rparr>\<rparr>\<rparr>
           None] @ later
      \<and> filter is_PublicIPsCreateOrUpdate later = []
      \<and> (\<exists>bh r. later =
            [PublicIPsGet ''rg'' ''Pip1'' (publicIP_of ''Pip1'', None),
             BastionHostsCreateOrUpdate ''rg'' ''B1'' bh r]))
   \<and> fst (Reconcile (fake U [b1])
        \<lparr>world = cloud0\<lparr>outage := [''publicIPs.CreateOrUpdate'']\<rparr>, trace = []\<rparr>)
       = Some (withMessage (Base 500) ''failed to create bastion publicIP'')
   \<and> fst (Reconcile (fake U [b1])
        \<lparr>world = cloud0\<lparr>outage := [''publicIPs.slow'']\<rparr>, trace = []\<rparr>)
       = Some (withMessage (Base 404) ''failed to get created publicIP''))"
  (is "\<forall>U. ?P U")
proof (rule allI)
  fix U
  show "?P U"
  proof -
  let ?s = "fake U [b1]"
  have specs: "BastionSpecs ?s = [] @ b1 # []"
    by (simp add: fake_def)
  have notfound: "ResourceNotFound ?s (Some (Base 404))"
    by (simp add: fake_def)
  note defs = Reconcile_body_def call_defs fake_def b1_def cloud0_def Let_def Wrap_def
  have first: "\<exists>later.
      trace (snd (Reconcile ?s \<lparr>world = cloud0, trace = []\<rparr>)) =
        [SubnetsGet ''rg'' ''vnet1'' ''snet1'' (subnet_of ''snet1'', None),
         PublicIPsGet ''rg'' ''Pip1'' (no_publicIP, Some (Base 404)),
         PublicIPsCreateOrUpdate ''rg'' ''Pip1''
           \<lparr>Sku = Some \<lparr>Sku_Name = PublicIPAddressSkuNameStandard\<rparr>,
            PublicIP_Name = Some ''Pip1'',
            PublicIP_Location = Some ''westus'',
            PublicIP_ID = None,
            PublicIP_Properties = Some
              \<lparr>PublicIPAddressVersion = IPv4,
               PublicIPAllocationMethod = Static,
               DNSSettings = Some \<lparr>DomainNameLabel = Some ''pip1''\<rparr>\<rparr>\<rparr>
           None] @ later
      \<and> filter is_PublicIPsCreateOrUpdate later = []
      \<and> (\<exists>bh r. later =
            [PublicIPsGet ''rg'' ''Pip1'' (publicIP_of ''Pip1'', None),
             BastionHostsCreateOrUpdate ''rg'' ''B1'' bh r])"
  proof -
    let ?init = "\<lparr>world = cloud0, trace = []\<rparr> :: (cloud, nat, BuildParams) state"
    obtain fl fin where step: "Reconcile_body ?s b1 ?init = (fl, fin)"
      by (metis surj_pair)
    have reach: "Reconcile_range ?s [] ?init = (Proceed (), ?init)"
      by simp
    have subnet: "SubnetsClient_Get ?s (ResourceGroup ?s) (VNetName b1) (SubnetName b1)
        (world ?init) = ((subnet_of ''snet1'', None), cloud0)"
      by (simp add: fake_def b1_def cloud0_def)
    have lookup: "PublicIPsClient_Get ?s (ResourceGroup ?s) (PublicIPName b1) cloud0
        = ((no_publicIP, Some (Base 404)), cloud0)"
      by (simp add: fake_def b1_def cloud0_def)
    have create: "PublicIPsClient_CreateOrUpdate ?s (ResourceGroup ?s) (PublicIPName b1)
        (publicIP_for ?s (PublicIPName b1)) cloud0 = (None, cloud0\<lparr>publicIPs := [''Pip1'']\<rparr>)"
      by (simp add: fake_def b1_def cloud0_def)
    have refetch: "PublicIPsClient_Get ?s (ResourceGroup ?s) (PublicIPName b1)
        (cloud0\<lparr>publicIPs := [''Pip1'']\<rparr>)
        = ((publicIP_of ''Pip1'', None), cloud0\<lparr>publicIPs := [''Pip1'']\<rparr>)"
      by (simp add: fake_def b1_def cloud0_def)
    have run: "snd (Reconcile ?s ?init) = fin"
      using step by (simp add: Reconcile_def fake_simps split: flow.splits)
    show ?thesis
      using Reconcile_creates_missing_publicIP
        [OF specs reach subnet lookup notfound create refetch step]
      by (simp add: run fake_simps spec_simps ToLower_Pip1)
  qed
  have second: "fst (Reconcile ?s
        \<lparr>world = cloud0\<lparr>outage := [''publicIPs.CreateOrUpdate'']\<rparr>, trace = []\<rparr>)
       = Some (withMessage (Base 500) ''failed to create bastion publicIP'')"
  proof -
    let ?w = "cloud0\<lparr>outage := [''publicIPs.CreateOrUpdate'']\<rparr>"
    let ?init = "\<lparr>world = ?w, trace = []\<rparr> :: (cloud, nat, BuildParams) state"
    obtain fl fin where step: "Reconcile_body ?s b1 ?init = (fl, fin)"
      by (metis surj_pair)
    have reach: "Reconcile_range ?s [] ?init = (Proceed (), ?init)"
      by simp
    have subnet: "SubnetsClient_Get ?s (ResourceGroup ?s) (VNetName b1) (SubnetName b1)
        (world ?init) = ((subnet_of ''snet1'', None), ?w)"
      by (simp add: fake_def b1_def cloud0_def)
    have lookup: "PublicIPsClient_Get ?s (ResourceGroup ?s) (PublicIPName b1) ?w
        = ((no_publicIP, Some (Base 404)), ?w)"
      by (simp add: fake_def b1_def cloud0_def)
    have create: "PublicIPsClient_CreateOrUpdate ?s (ResourceGroup ?s) (PublicIPName b1)
        (publicIP_for ?s (PublicIPName b1)) ?w = (Some (Base 500), ?w)"
      by (simp add: fake_def b1_def cloud0_def)
    have refetch: "PublicIPsClient_Get ?s (ResourceGroup ?s) (PublicIPName b1) ?w
        = ((no_publicIP, Some (Base 404)), ?w)"
      by (simp add: fake_def b1_def cloud0_def)
    show ?thesis
      using Reconcile_creates_missing_publicIP
        [OF specs reach subnet lookup notfound create refetch step]
      by simp
  qed
  have third: "fst (Reconcile ?s
        \<lparr>world = cloud0\<lparr>outage := [''publicIPs.slow'']\<rparr>, trace = []\<rparr>)
       = Some (withMessage (Base 404) ''failed to get created publicIP'')"
  proof -
    let ?w = "cloud0\<lparr>outage := [''publicIPs.slow'']\<rparr>"
    let ?init = "\<lparr>world = ?w, trace = []\<rparr> :: (cloud, nat, BuildParams) state"
    obtain fl fin where step: "Reconcile_body ?s b1 ?init = (fl, fin)"
      by (metis surj_pair)
    have reach: "Reconcile_range ?s [] ?init = (Proceed (), ?init)"
      by simp
    have subnet: "SubnetsClient_Get ?s (ResourceGroup ?s) (VNetName b1) (SubnetName b1)
        (world ?init) = ((subnet_of ''snet1'', None), ?w)"
      by (simp add: fake_def b1_def cloud0_def)
    have lookup: "PublicIPsClient_Get ?s (ResourceGroup ?s) (PublicIPName b1) ?w
        = ((no_publicIP, Some (Base 404)), ?w)"
      by (simp add: fake_def b1_def cloud0_def)
    have create: "PublicIPsClient_CreateOrUpdate ?s (ResourceGroup ?s) (PublicIPName b1)
        (publicIP_for ?s (PublicIPName b1)) ?w = (None, ?w)"
      by (simp add: fake_def b1_def cloud0_def)
    show ?thesis
      using Reconcile_creates_missing_publicIP
        [OF specs reach subnet lookup notfound create lookup step]
      by simp
  qed
  from first second third show ?thesis
    by (intro conjI)
  qed
qed

text \<open>
  C3. Let the loop of \<open>Reconcile\<close> reach a specification, and let the calls made for it
  contain a subnet lookup answered with \<open>subnet\<close> and no error, and a public IP lookup
  answered with \<open>publicIP\<close> and no error. Then the last call for the specification is the
  only create-or-update of a bastion host among them, and its payload has exactly one
  IP configuration: named after the specification with ``-bastionIP'' appended,
  referring to the identifier of \<open>subnet\<close> and to the identifier of \<open>publicIP\<close>, with
  static private allocation; the DNS name is the name lower-cased by
  \<^verbatim>\<open>strings.ToLower\<close>, with ``-bastion'' appended. For an ASCII name the lower-cased
  name is the name with each of the letters \<^verbatim>\<open>A\<close> to \<^verbatim>\<open>Z\<close> replaced by its small letter,
  whatever the library does elsewhere.
\<close>

theorem Reconcile_bastion_host_payload:
  assumes specs: "BastionSpecs s = before @ bastionSpec # rest"
      and reach: "Reconcile_range s before st0 = (Proceed (), st)"
      and step: "Reconcile_body s bastionSpec st = (fl, st')"
      and calls: "trace st' = trace st @ calls"
      and S: "SubnetsGet rg1 vnet sn (subnet, None) \<in> set calls"
      and P: "PublicIPsGet rg2 pn (publicIP, None) \<in> set calls"
  shows "(isASCII (Name bastionSpec) \<longrightarrow>
            ToLower (Map_unicode_ToLower s) (Name bastionSpec)
              = map toLowerByte (Name bastionSpec))
         \<and> (\<exists>r.
           last calls =
             BastionHostsCreateOrUpdate (ResourceGroup s) (Name bastionSpec)
               \<lparr>BastionHost_Name = Some (Name bastionSpec),
                BastionHost_Location = Some (Location s),
                Tags = TagsToMap_Build s
                  \<lparr>Build_ClusterName = ClusterName s,
                   Build_Lifecycle = ResourceLifecycleOwned,
                   Build_Name = Some (Name bastionSpec),
                   Build_Role = Some ''Bastion''\<rparr>,
                BastionHost_Properties = Some
                  \<lparr>DNSName = Some
                     (ToLower (Map_unicode_ToLower s) (Name bastionSpec) @ ''-bastion''),
                   IPConfigurations = Some
                     [\<lparr>IPConfig_Name = Some (Name bastionSpec @ ''-bastionIP''),
                       IPConfig_Properties = Some
                         \<lparr>IPConfig_Subnet = Some \<lparr>ID = Subnet_ID subnet\<rparr>,
                          IPConfig_PublicIPAddress = Some \<lparr>ID = PublicIP_ID publicIP\<rparr>,
                          PrivateIPAllocationMethod = Static\<rparr>\<rparr>]\<rparr>\<rparr>
               r
         \<and> filter is_BastionHostsCreateOrUpdate calls = [last calls]
         \<and> prefix (trace st @ calls) (trace (snd (Reconcile s st0))))"
proof -
  have after: "prefix (trace st @ calls) (trace (snd (Reconcile s st0)))"
    using Reconcile_after_body [OF specs reach step] calls by simp
  from step show ?thesis
  proof (cases rule: Reconcile_body_cases)
    case (subnet_fail subnet' e w1)
    with calls S show ?thesis by auto
  next
    case (lookup_fail subnet' w1 p0 e w2)
    with calls P show ?thesis by auto
  next
    case (create_fail subnet' w1 p0 e w2 ce w3)
    with calls P show ?thesis by auto
  next
    case (refetch_fail subnet' w1 p0 e w2 w3 p1 ge w4)
    with calls P show ?thesis by auto
  next
    case (created subnet' w1 p0 e w2 w3 p1 w4 r w5)
    with calls S P have "subnet' = subnet" "p1 = publicIP" by auto
    with created(8) calls after show ?thesis by (auto simp: ToLower_ASCII)
  next
    case (existing subnet' w1 p0 w2 r w3)
    with calls S P have "subnet' = subnet" "p0 = publicIP" by auto
    with existing(5) calls after show ?thesis by (auto simp: ToLower_ASCII)
  qed
qed

theorem Reconcile_bastion_host_payload_witness:
  "\<forall>U.
   (\<exists>r. last (trace (snd (Reconcile (fake U [b1]) \<lparr>world = cloud0, trace = []\<rparr>))) =
      BastionHostsCreateOrUpdate ''rg'' ''B1''
        \<lparr>BastionHost_Name = Some ''B1'',
         BastionHost_Location = Some ''westus'',
         Tags = \<lparr>Build_ClusterName = ''c1'',
                 Build_Lifecycle = ResourceLifecycleOwned,
                 Build_Name = Some ''B1'',
                 Build_Role = Some ''Bastion''\<rparr>,
         BastionHost_Properties = Some
           \<lparr>DNSName = Some ''b1-bastion'',
            IPConfigurations = Some
              [\<lparr>IPConfig_Name = Some ''B1-bastionIP'',
                IPConfig_Properties = Some
                  \<lparr>IPConfig_Subnet = Some \<lparr>ID = Some ''/subnets/snet1''\<rparr>,
                   IPConfig_PublicIPAddress = Some \<lparr>ID = Some ''/publicIPAddresses/Pip1''\<rparr>,
                   PrivateIPAllocationMethod = Static\<rparr>\<rparr>]\<rparr>\<rparr>
        r)"
  (is "\<forall>U. ?P U")
proof (rule allI)
  fix U
  show "?P U"
  proof -
  let ?s = "fake U [b1]"
  let ?init = "\<lparr>world = cloud0, trace = []\<rparr> :: (cloud, nat, BuildParams) state"
  let ?calls = "[SubnetsGet ''rg'' ''vnet1'' ''snet1'' (subnet_of ''snet1'', None),
      PublicIPsGet ''rg'' ''Pip1'' (no_publicIP, Some (Base 404)),
      PublicIPsCreateOrUpdate ''rg'' ''Pip1'' (publicIP_for ?s ''Pip1'') None,
      PublicIPsGet ''rg'' ''Pip1'' (publicIP_of ''Pip1'', None),
      BastionHostsCreateOrUpdate ''rg'' ''B1''
        (bastionHost_for ?s b1 (subnet_of ''snet1'') (publicIP_of ''Pip1'')) None]
      :: (nat, BuildParams) event list"
  let ?fin = "\<lparr>world = cloud0\<lparr>publicIPs := [''Pip1''], bastionHosts := [''B1'']\<rparr>,
               trace = ?calls\<rparr>"
  have specs: "BastionSpecs ?s = [] @ b1 # []"
    by (simp add: fake_def)
  have reach: "Reconcile_range ?s [] ?init = (Proceed (), ?init)"
    by simp
  have step: "Reconcile_body ?s b1 ?init = (Proceed (), ?fin)"
    by (simp add: Reconcile_body_def call_defs fake_def b1_def cloud0_def Let_def)
  have calls: "trace ?fin = trace ?init @ ?calls"
    by simp
  have S: "SubnetsGet ''rg'' ''vnet1'' ''snet1'' (subnet_of ''snet1'', None) \<in> set ?calls"
    by simp
  have P: "PublicIPsGet ''rg'' ''Pip1'' (publicIP_of ''Pip1'', None) \<in> set ?calls"
    by simp
  have run: "snd (Reconcile ?s ?init) = ?fin"
    using step by (simp add: Reconcile_def fake_simps)
  show ?thesis
    using Reconcile_bastion_host_payload [OF specs reach step calls S P]
    by (simp add: run fake_simps fake_tags spec_simps ToLower_B1 subnet_of_def publicIP_of_def)
  qed
qed

text \<open>
  C4. Whenever the loop of \<open>Reconcile\<close> reaches a specification and the lookup of its
  subnet returns an error, whatever its classification, \<open>Reconcile\<close> returns that error
  wrapped with ``failed to get subnet''. The lookup is the last call of the run: no
  public IP client and no bastion host client is called for this specification, and no
  client at all for the specifications after it.
\<close>

theorem Reconcile_subnet_lookup_fails:
  assumes specs: "BastionSpecs s = before @ bastionSpec # rest"
      and reach: "Reconcile_range s before st0 = (Proceed (), st)"
      and lookup: "SubnetsClient_Get s (ResourceGroup s) (VNetName bastionSpec)
                     (SubnetName bastionSpec) (world st) = ((subnet, Some e), w)"
  shows "Reconcile s st0 =
           (Some (withMessage e ''failed to get subnet''),
            \<lparr>world = w,
             trace = trace st @
               [SubnetsGet (ResourceGroup s) (VNetName bastionSpec) (SubnetName bastionSpec)
                  (subnet, Some e)]\<rparr>)"
proof -
  have "Reconcile_body s bastionSpec st =
          (Return (Some (withMessage e ''failed to get subnet'')),
           \<lparr>world = w,
            trace = trace st @
              [SubnetsGet (ResourceGroup s) (VNetName bastionSpec) (SubnetName bastionSpec)
                 (subnet, Some e)]\<rparr>)"
    using lookup by (simp add: Reconcile_body_def call_SubnetsGet_def Wrap_def)
  then show ?thesis
    by (simp add: Reconcile_at [OF specs reach])
qed

theorem Reconcile_subnet_lookup_fails_witness:
  "\<forall>U.
   (Reconcile (fake U [b1, b2, b3]) \<lparr>world = cloud0\<lparr>publicIPs := [''Pip1'']\<rparr>, trace = []\<rparr> =
     (Some (withMessage (Base 404) ''failed to get subnet''),
      \<lparr>world = cloud0\<lparr>publicIPs := [''Pip1''], bastionHosts := [''B1'']\<rparr>,
       trace =
         [SubnetsGet ''rg'' ''vnet1'' ''snet1'' (subnet_of ''snet1'', None),
          PublicIPsGet ''rg'' ''Pip1'' (publicIP_of ''Pip1'', None),
          BastionHostsCreateOrUpdate ''rg'' ''B1''
            (bastionHost_for (fake U [b1, b2, b3]) b1 (subnet_of ''snet1'') (publicIP_of ''Pip1''))
            None,
          SubnetsGet ''rg'' ''vnet1'' ''snet2'' (no_subnet, Some (Base 404))]\<rparr>))"
  (is "\<forall>U. ?P U")
proof (rule allI)
  fix U
  show "?P U"
  proof -
  let ?s = "fake U [b1, b2, b3]"
  let ?init = "\<lparr>world = cloud0\<lparr>publicIPs := [''Pip1'']\<rparr>, trace = []\<rparr>"
  let ?mid = "\<lparr>world = cloud0\<lparr>publicIPs := [''Pip1''], bastionHosts := [''B1'']\<rparr>,
       trace =
         [SubnetsGet ''rg'' ''vnet1'' ''snet1'' (subnet_of ''snet1'', None),
          PublicIPsGet ''rg'' ''Pip1'' (publicIP_of ''Pip1'', None),
          BastionHostsCreateOrUpdate ''rg'' ''B1''
            (bastionHost_for ?s b1 (subnet_of ''snet1'') (publicIP_of ''Pip1'')) None]\<rparr>"
  have specs: "BastionSpecs ?s = [b1] @ b2 # [b3]"
    by (simp add: fake_def)
  have reach: "Reconcile_range ?s [b1] ?init = (Proceed (), ?mid)"
    by (simp add: Reconcile_body_def call_defs fake_def b1_def cloud0_def Let_def)
  have lookup: "SubnetsClient_Get ?s (ResourceGroup ?s) (VNetName b2) (SubnetName b2) (world ?mid)
      = ((no_subnet, Some (Base 404)), world ?mid)"
    by (simp add: fake_def b2_def cloud0_def)
  show ?thesis
    using Reconcile_subnet_lookup_fails [OF specs reach lookup]
    by (simp add: fake_simps b2_def)
  qed
qed

text \<open>
  C5. Let the loop of \<open>Reconcile\<close> reach a specification whose subnet is found, and let
  \<open>err\<close> be the error of the public IP lookup. The calls made for this specification
  contain a create-or-update of a public IP exactly when \<open>err\<close> is an error classified
  as not found; in particular they contain none when the lookup succeeds.
\<close>

theorem Reconcile_creates_publicIP_only_if_missing:
  assumes specs: "BastionSpecs s = before @ bastionSpec # rest"
      and reach: "Reconcile_range s before st0 = (Proceed (), st)"
      and subnet: "SubnetsClient_Get s (ResourceGroup s) (VNetName bastionSpec)
                     (SubnetName bastionSpec) (world st) = ((subnet, None), w1)"
      and lookup: "PublicIPsClient_Get s (ResourceGroup s) (PublicIPName bastionSpec) w1
                     = ((p0, err), w2)"
      and step: "Reconcile_body s bastionSpec st = (fl, st')"
      and calls: "trace st' = trace st @ calls"
  shows "list_ex is_PublicIPsCreateOrUpdate calls = (err \<noteq> None \<and> ResourceNotFound s err)
         \<and> prefix (trace st @ calls) (trace (snd (Reconcile s st0)))"
proof -
  have after: "prefix (trace st @ calls) (trace (snd (Reconcile s st0)))"
    using Reconcile_after_body [OF specs reach step] calls by simp
  from step have "list_ex is_PublicIPsCreateOrUpdate calls
      = (err \<noteq> None \<and> ResourceNotFound s err)"
  proof (cases rule: Reconcile_body_cases)
    case (subnet_fail subnet' e w1')
    with subnet show ?thesis by simp
  next
    case (lookup_fail subnet' w1' p0' e w2')
    with subnet lookup calls show ?thesis by auto
  next
    case (create_fail subnet' w1' p0' e w2' ce w3)
    with subnet lookup calls show ?thesis by auto
  next
    case (refetch_fail subnet' w1' p0' e w2' w3 p1 ge w4)
    with subnet lookup calls show ?thesis by auto
  next
    case (created subnet' w1' p0' e w2' w3 p1 w4 r w5)
    with subnet lookup calls show ?thesis by auto
  next
    case (existing subnet' w1' p0' w2' r w3)
    with subnet lookup calls show ?thesis by auto
  qed
  with after show ?thesis by simp
qed

theorem Reconcile_creates_publicIP_only_if_missing_witness:
  "\<forall>U.
   (\<not> list_ex is_PublicIPsCreateOrUpdate
       (trace (snd (Reconcile (fake U [b1])
          \<lparr>world = cloud0\<lparr>publicIPs := [''Pip1'']\<rparr>, trace = []\<rparr>)))
   \<and> list_ex is_PublicIPsCreateOrUpdate
       (trace (snd (Reconcile (fake U [b1]) \<lparr>world = cloud0, trace = []\<rparr>))))"
  (is "\<forall>U. ?P U")
proof (rule allI)
  fix U
  show "?P U"
  proof -
  let ?s = "fake U [b1]"
  have specs: "BastionSpecs ?s = [] @ b1 # []"
    by (simp add: fake_def)
  have found: "\<not> list_ex is_PublicIPsCreateOrUpdate
       (trace (snd (Reconcile ?s \<lparr>world = cloud0\<lparr>publicIPs := [''Pip1'']\<rparr>, trace = []\<rparr>)))"
  proof -
    let ?w = "cloud0\<lparr>publicIPs := [''Pip1'']\<rparr>"
    let ?init = "\<lparr>world = ?w, trace = []\<rparr> :: (cloud, nat, BuildParams) state"
    have reach: "Reconcile_range ?s [] ?init = (Proceed (), ?init)"
      by simp
    have subnet: "SubnetsClient_Get ?s (ResourceGroup ?s) (VNetName b1) (SubnetName b1)
        (world ?init) = ((subnet_of ''snet1'', None), ?w)"
      by (simp add: fake_def b1_def cloud0_def)
    have lookup: "PublicIPsClient_Get ?s (ResourceGroup ?s) (PublicIPName b1) ?w
        = ((publicIP_of ''Pip1'', None), ?w)"
      by (simp add: fake_def b1_def cloud0_def)
    obtain fl fin where step: "Reconcile_body ?s b1 ?init = (fl, fin)"
      by (metis surj_pair)
    have calls: "trace fin = trace ?init @ trace fin"
      by simp
    have run: "snd (Reconcile ?s ?init) = fin"
      using step by (simp add: Reconcile_def fake_simps split: flow.splits)
    show ?thesis
      using Reconcile_creates_publicIP_only_if_missing
        [OF specs reach subnet lookup step calls]
      by (simp add: run)
  qed
  have missing: "list_ex is_PublicIPsCreateOrUpdate
       (trace (snd (Reconcile ?s \<lparr>world = cloud0, trace = []\<rparr>)))"
  proof -
    let ?init = "\<lparr>world = cloud0, trace = []\<rparr> :: (cloud, nat, BuildParams) state"
    have reach: "Reconcile_range ?s [] ?init = (Proceed (), ?init)"
      by simp
    have subnet: "SubnetsClient_Get ?s (ResourceGroup ?s) (VNetName b1) (SubnetName b1)
        (world ?init) = ((subnet_of ''snet1'', None), cloud0)"
      by (simp add: fake_def b1_def cloud0_def)
    have lookup: "PublicIPsClient_Get ?s (ResourceGroup ?s) (PublicIPName b1) cloud0
        = ((no_publicIP, Some (Base 404)), cloud0)"
      by (simp add: fake_def b1_def cloud0_def)
    have notfound: "ResourceNotFound ?s (Some (Base 404))"
      by (simp add: fake_def)
    obtain fl fin where step: "Reconcile_body ?s b1 ?init = (fl, fin)"
      by (metis surj_pair)
    have calls: "trace fin = trace ?init @ trace fin"
      by simp
    have run: "snd (Reconcile ?s ?init) = fin"
      using step by (simp add: Reconcile_def fake_simps split: flow.splits)
    show ?thesis
      using Reconcile_creates_publicIP_only_if_missing
        [OF specs reach subnet lookup step calls] notfound
      by (simp add: run)
  qed
  from found missing show ?thesis
    by (rule conjI)
  qed
qed

text \<open>
  C6. Let the loop of \<open>Reconcile\<close> reach a specification, and let the create-or-update of
  its bastion host fail with an error \<open>e\<close>, whatever its classification. Then that call
  is the last call of the run, and \<open>Reconcile\<close> returns \<open>e\<close> wrapped with ``cannot create
  bastion host'': the message of the returned error starts with these words and goes on
  with the message of \<open>e\<close>, and its cause is the cause of \<open>e\<close>.
\<close>

theorem Reconcile_upsert_fails:
  assumes specs: "BastionSpecs s = before @ bastionSpec # rest"
      and reach: "Reconcile_range s before st0 = (Proceed (), st)"
      and step: "Reconcile_body s bastionSpec st = (fl, st')"
      and calls: "trace st' = trace st @ calls"
      and fail: "BastionHostsCreateOrUpdate rg n bh (Some e) \<in> set calls"
  shows "Reconcile s st0 = (Some (withMessage e ''cannot create bastion host''), st')
         \<and> last calls = BastionHostsCreateOrUpdate rg n bh (Some e)
         \<and> Cause (withMessage e ''cannot create bastion host'') = Cause e
         \<and> Error pr (withMessage e ''cannot create bastion host'')
             = ''cannot create bastion host'' @ '': '' @ Error pr e
         \<and> sublist ''cannot create bastion host''
             (Error pr (withMessage e ''cannot create bastion host''))"
proof -
  have msg: "Error pr (withMessage e ''cannot create bastion host'')
             = ''cannot create bastion host'' @ '': '' @ Error pr e"
    by (simp only: Error.simps)
  have sub: "sublist ''cannot create bastion host''
             (Error pr (withMessage e ''cannot create bastion host''))"
    unfolding msg by (rule sublist_append_rightI)
  have "fl = Return (Some (withMessage e ''cannot create bastion host''))
        \<and> last calls = BastionHostsCreateOrUpdate rg n bh (Some e)"
    using step
  proof (cases rule: Reconcile_body_cases)
    case (subnet_fail subnet' e' w1)
    with calls fail show ?thesis by auto
  next
    case (lookup_fail subnet' w1 p0 e' w2)
    with calls fail show ?thesis by auto
  next
    case (create_fail subnet' w1 p0 e' w2 ce w3)
    with calls fail show ?thesis by auto
  next
    case (refetch_fail subnet' w1 p0 e' w2 w3 p1 ge w4)
    with calls fail show ?thesis by auto
  next
    case (created subnet' w1 p0 e' w2 w3 p1 w4 r w5)
    with calls fail show ?thesis by (auto simp: Wrap_def)
  next
    case (existing subnet' w1 p0 w2 r w3)
    with calls fail show ?thesis by (auto simp: Wrap_def)
  qed
  moreover from this step have "Reconcile s st0
      = (Some (withMessage e ''cannot create bastion host''), st')"
    using Reconcile_aborts [OF specs reach] by simp
  ultimately show ?thesis
    using msg sub by (simp only: Cause.simps simp_thms)
qed

theorem Reconcile_upsert_fails_witness:
  "\<forall>U.
   (Reconcile (fake U [b1, b2])
     \<lparr>world = cloud0\<lparr>publicIPs := [''Pip1''], outage := [''bastionHosts'']\<rparr>, trace = []\<rparr> =
     (Some (withMessage (Base 500) ''cannot create bastion host''),
      \<lparr>world = cloud0\<lparr>publicIPs := [''Pip1''], outage := [''bastionHosts'']\<rparr>,
       trace =
         [SubnetsGet ''rg'' ''vnet1'' ''snet1'' (subnet_of ''snet1'', None),
          PublicIPsGet ''rg'' ''Pip1'' (publicIP_of ''Pip1'', None),
          BastionHostsCreateOrUpdate ''rg'' ''B1''
            (bastionHost_for (fake U [b1, b2]) b1 (subnet_of ''snet1'') (publicIP_of ''Pip1''))
            (Some (Base 500))]\<rparr>)
   \<and> Error (\<lambda>n. ''status 500'') (withMessage (Base (500::nat)) ''cannot create bastion host'')
       = ''cannot create bastion host: status 500'')"
  (is "\<forall>U. ?P U")
proof (rule allI)
  fix U
  show "?P U"
  proof -
  let ?s = "fake U [b1, b2]"
  let ?w = "cloud0\<lparr>publicIPs := [''Pip1''], outage := [''bastionHosts'']\<rparr>"
  let ?init = "\<lparr>world = ?w, trace = []\<rparr> :: (cloud, nat, BuildParams) state"
  let ?calls = "[SubnetsGet ''rg'' ''vnet1'' ''snet1'' (subnet_of ''snet1'', None),
      PublicIPsGet ''rg'' ''Pip1'' (publicIP_of ''Pip1'', None),
      BastionHostsCreateOrUpdate ''rg'' ''B1''
        (bastionHost_for ?s b1 (subnet_of ''snet1'') (publicIP_of ''Pip1'')) (Some (Base 500))]
      :: (nat, BuildParams) event list"
  let ?fin = "\<lparr>world = ?w, trace = ?calls\<rparr>"
  have specs: "BastionSpecs ?s = [] @ b1 # [b2]"
    by (simp add: fake_def)
  have reach: "Reconcile_range ?s [] ?init = (Proceed (), ?init)"
    by simp
  have step: "Reconcile_body ?s b1 ?init
      = (Return (Some (withMessage (Base 500) ''cannot create bastion host'')), ?fin)"
    by (simp add: Reconcile_body_def call_defs fake_def b1_def cloud0_def Let_def Wrap_def)
  have calls: "trace ?fin = trace ?init @ ?calls"
    by simp
  have fail: "BastionHostsCreateOrUpdate ''rg'' ''B1''
        (bastionHost_for ?s b1 (subnet_of ''snet1'') (publicIP_of ''Pip1'')) (Some (Base 500))
      \<in> set ?calls"
    by simp
  show ?thesis
    using Reconcile_upsert_fails [OF specs reach step calls fail, of "\<lambda>n. ''status 500''"]
    by simp
  qed
qed

text \<open>
  C8. \<open>Reconcile\<close> works through the specifications in the order of the list: the
  specification at index \<open>i\<close> is processed from the state that the specifications before
  it have left, and only if none of them has failed. When the specification at
  index \<open>i\<close> is the first to fail, \<open>Reconcile\<close> returns its error, which is not \<^verbatim>\<open>nil\<close>,
  in the state that this specification has left, so no client is called for a later
  index. \<open>Reconcile\<close> returns \<^verbatim>\<open>nil\<close> exactly when every specification is reached and
  processed without error. In the record of calls, the subnet lookups are those of an
  initial segment of the list, in the order of the list, and of the whole list when
  \<open>Reconcile\<close> returns \<^verbatim>\<open>nil\<close>.
\<close>

theorem Reconcile_in_order:
  "(\<forall>i<length (BastionSpecs s).
      Reconcile_range s (take (Suc i) (BastionSpecs s)) st0 =
        (case Reconcile_range s (take i (BastionSpecs s)) st0 of
           (Return r, st') \<Rightarrow> (Return r, st')
         | (Proceed u, st) \<Rightarrow> Reconcile_body s (BastionSpecs s ! i) st))
   \<and> (\<forall>i<length (BastionSpecs s). \<forall>st r st'.
        Reconcile_range s (take i (BastionSpecs s)) st0 = (Proceed (), st) \<and>
        Reconcile_body s (BastionSpecs s ! i) st = (Return r, st')
        \<longrightarrow> r \<noteq> None \<and> Reconcile s st0 = (r, st'))
   \<and> ((fst (Reconcile s st0) = None) =
        (\<forall>i<length (BastionSpecs s). \<exists>st st'.
           Reconcile_range s (take i (BastionSpecs s)) st0 = (Proceed (), st) \<and>
           Reconcile_body s (BastionSpecs s ! i) st = (Proceed (), st')))
   \<and> (\<exists>answers calls.
        length answers \<le> length (BastionSpecs s) \<and>
        trace (snd (Reconcile s st0)) = trace st0 @ calls \<and>
        filter is_SubnetsGet calls =
          map2 (\<lambda>b a. SubnetsGet (ResourceGroup s) (VNetName b) (SubnetName b) a)
            (BastionSpecs s) answers \<and>
        (fst (Reconcile s st0) = None \<longrightarrow> length answers = length (BastionSpecs s)))"
proof (intro conjI allI impI)
  fix i assume "i < length (BastionSpecs s)"
  then show "Reconcile_range s (take (Suc i) (BastionSpecs s)) st0 =
        (case Reconcile_range s (take i (BastionSpecs s)) st0 of
           (Return r, st') \<Rightarrow> (Return r, st')
         | (Proceed u, st) \<Rightarrow> Reconcile_body s (BastionSpecs s ! i) st)"
    by (rule Reconcile_range_take_Suc)
next
  fix i st r st'
  assume i: "i < length (BastionSpecs s)"
    and "Reconcile_range s (take i (BastionSpecs s)) st0 = (Proceed (), st) \<and>
        Reconcile_body s (BastionSpecs s ! i) st = (Return r, st')"
  then have reach: "Reconcile_range s (take i (BastionSpecs s)) st0 = (Proceed (), st)"
    and step: "Reconcile_body s (BastionSpecs s ! i) st = (Return r, st')"
    by simp_all
  from i have specs: "BastionSpecs s =
      take i (BastionSpecs s) @ BastionSpecs s ! i # drop (Suc i) (BastionSpecs s)"
    by (simp add: id_take_nth_drop)
  from step show "r \<noteq> None" by (rule Reconcile_body_Return)
  from specs reach step show "Reconcile s st0 = (r, st')" by (rule Reconcile_aborts)
next
  show "(fst (Reconcile s st0) = None) =
        (\<forall>i<length (BastionSpecs s). \<exists>st st'.
           Reconcile_range s (take i (BastionSpecs s)) st0 = (Proceed (), st) \<and>
           Reconcile_body s (BastionSpecs s ! i) st = (Proceed (), st'))"
    by (simp only: Reconcile_nil_iff Reconcile_range_Proceed_iff)
next
  show "\<exists>answers calls.
        length answers \<le> length (BastionSpecs s) \<and>
        trace (snd (Reconcile s st0)) = trace st0 @ calls \<and>
        filter is_SubnetsGet calls =
          map2 (\<lambda>b a. SubnetsGet (ResourceGroup s) (VNetName b) (SubnetName b) a)
            (BastionSpecs s) answers \<and>
        (fst (Reconcile s st0) = None \<longrightarrow> length answers = length (BastionSpecs s))"
    by (rule Reconcile_lookups)
qed

theorem Reconcile_in_order_witness:
  "\<forall>U.
   (Reconcile (fake U [b1, b3, b2])
     \<lparr>world = cloud0\<lparr>publicIPs := [''Pip1'', ''Pip3'']\<rparr>, trace = []\<rparr> =
     (Some (withMessage (Base 404) ''failed to get subnet''),
      \<lparr>world = cloud0\<lparr>publicIPs := [''Pip1'', ''Pip3''], bastionHosts := [''B3'', ''B1'']\<rparr>,
       trace =
         [SubnetsGet ''rg'' ''vnet1'' ''snet1'' (subnet_of ''snet1'', None),
          PublicIPsGet ''rg'' ''Pip1'' (publicIP_of ''Pip1'', None),
          BastionHostsCreateOrUpdate ''rg'' ''B1''
            (bastionHost_for (fake U [b1, b3, b2]) b1 (subnet_of ''snet1'') (publicIP_of ''Pip1''))
            None,
          SubnetsGet ''rg'' ''vnet1'' ''snet1'' (subnet_of ''snet1'', None),
          PublicIPsGet ''rg'' ''Pip3'' (publicIP_of ''Pip3'', None),
          BastionHostsCreateOrUpdate ''rg'' ''B3''
            (bastionHost_for (fake U [b1, b3, b2]) b3 (subnet_of ''snet1'') (publicIP_of ''Pip3''))
            None,
          SubnetsGet ''rg'' ''vnet1'' ''snet2'' (no_subnet, Some (Base 404))]\<rparr>))"
  (is "\<forall>U. ?P U")
proof (rule allI)
  fix U
  show "?P U"
  proof -
  let ?s = "fake U [b1, b3, b2]"
  let ?init = "\<lparr>world = cloud0\<lparr>publicIPs := [''Pip1'', ''Pip3'']\<rparr>, trace = []\<rparr>
               :: (cloud, nat, BuildParams) state"
  let ?w = "cloud0\<lparr>publicIPs := [''Pip1'', ''Pip3''], bastionHosts := [''B3'', ''B1'']\<rparr>"
  let ?done = "[SubnetsGet ''rg'' ''vnet1'' ''snet1'' (subnet_of ''snet1'', None),
          PublicIPsGet ''rg'' ''Pip1'' (publicIP_of ''Pip1'', None),
          BastionHostsCreateOrUpdate ''rg'' ''B1''
            (bastionHost_for ?s b1 (subnet_of ''snet1'') (publicIP_of ''Pip1'')) None,
          SubnetsGet ''rg'' ''vnet1'' ''snet1'' (subnet_of ''snet1'', None),
          PublicIPsGet ''rg'' ''Pip3'' (publicIP_of ''Pip3'', None),
          BastionHostsCreateOrUpdate ''rg'' ''B3''
            (bastionHost_for ?s b3 (subnet_of ''snet1'') (publicIP_of ''Pip3'')) None]
          :: (nat, BuildParams) event list"
  let ?mid = "\<lparr>world = ?w, trace = ?done\<rparr>"
  let ?fin = "\<lparr>world = ?w,
               trace = ?done @ [SubnetsGet ''rg'' ''vnet1'' ''snet2'' (no_subnet, Some (Base 404))]\<rparr>"
  have index: "2 < length (BastionSpecs ?s)"
    by (simp add: fake_simps)
  have reach: "Reconcile_range ?s (take 2 (BastionSpecs ?s)) ?init = (Proceed (), ?mid)"
    by (simp add: fake_simps)
       (simp add: Reconcile_body_def call_defs fake_def b1_def b3_def cloud0_def Let_def)
  have step: "Reconcile_body ?s (BastionSpecs ?s ! 2) ?mid
      = (Return (Some (withMessage (Base 404) ''failed to get subnet'')), ?fin)"
    by (simp add: fake_simps)
       (simp add: Reconcile_body_def call_defs fake_def b2_def cloud0_def Let_def Wrap_def)
  from Reconcile_in_order [of ?s ?init]
  have "\<forall>i<length (BastionSpecs ?s). \<forall>st r st'.
        Reconcile_range ?s (take i (BastionSpecs ?s)) ?init = (Proceed (), st) \<and>
        Reconcile_body ?s (BastionSpecs ?s ! i) st = (Return r, st')
        \<longrightarrow> r \<noteq> None \<and> Reconcile ?s ?init = (r, st')"
    by (elim conjE)
  with index reach step
  have "Reconcile ?s ?init = (Some (withMessage (Base 404) ''failed to get subnet''), ?fin)"
    by blast
  then show ?thesis
    by simp
  qed
qed

section \<open>Properties of Delete\<close>

text \<open>
  C2. Whenever the loop of \<open>Delete\<close> reaches a specification and the deletion of its
  bastion host fails with an error classified as not found, \<open>Delete\<close> returns \<^verbatim>\<open>nil\<close>
  at once: the failed deletion is the last call of the run, whatever specifications
  remain.
\<close>

theorem Delete_not_found_returns_nil:
  assumes specs: "BastionSpecs s = before @ bastionSpec # rest"
      and reach: "Delete_range s before st0 = (Proceed (), st)"
      and call: "Client_Delete s (ResourceGroup s) (Name bastionSpec) (world st) = (Some e, w)"
      and notfound: "ResourceNotFound s (Some e)"
  shows "Delete s st0 =
           (None,
            \<lparr>world = w,
             trace = trace st @
               [BastionHostsDelete (ResourceGroup s) (Name bastionSpec) (Some e)]\<rparr>)"
proof -
  have "Delete_body s bastionSpec st =
          (Return None,
           \<lparr>world = w,
            trace = trace st @
              [BastionHostsDelete (ResourceGroup s) (Name bastionSpec) (Some e)]\<rparr>)"
    using call notfound by (simp add: Delete_body_def call_Delete_def)
  then show ?thesis
    by (simp add: Delete_at [OF specs reach])
qed

theorem Delete_not_found_returns_nil_witness:
  "\<forall>U.
   (Delete (fake U [b1, b2, b3])
     \<lparr>world = cloud0\<lparr>bastionHosts := [''B1'', ''B3'']\<rparr>, trace = []\<rparr> =
     (None,
      \<lparr>world = cloud0\<lparr>bastionHosts := [''B3'']\<rparr>,
       trace = [BastionHostsDelete ''rg'' ''B1'' None,
                BastionHostsDelete ''rg'' ''B2'' (Some (Base 404))]\<rparr>))"
  (is "\<forall>U. ?P U")
proof (rule allI)
  fix U
  show "?P U"
  proof -
  let ?s = "fake U [b1, b2, b3]"
  let ?init = "\<lparr>world = cloud0\<lparr>bastionHosts := [''B1'', ''B3'']\<rparr>, trace = []\<rparr>"
  let ?mid = "\<lparr>world = cloud0\<lparr>bastionHosts := [''B3'']\<rparr>,
              trace = [BastionHostsDelete ''rg'' ''B1'' None]\<rparr>"
  have specs: "BastionSpecs ?s = [b1] @ b2 # [b3]"
    by (simp add: fake_def)
  have reach: "Delete_range ?s [b1] ?init = (Proceed (), ?mid)"
    by (simp add: Delete_body_def call_Delete_def fake_def b1_def cloud0_def)
  have call: "Client_Delete ?s (ResourceGroup ?s) (Name b2) (world ?mid)
      = (Some (Base 404), cloud0\<lparr>bastionHosts := [''B3'']\<rparr>)"
    by (simp add: fake_def b2_def cloud0_def)
  have notfound: "ResourceNotFound ?s (Some (Base 404))"
    by (simp add: fake_def)
  show ?thesis
    using Delete_not_found_returns_nil [OF specs reach call notfound]
    by (simp add: fake_simps b2_def)
  qed
qed

text \<open>
  C7. Whenever the loop of \<open>Delete\<close> reaches a specification and the deletion of its
  bastion host fails with an error that is not classified as not found, \<open>Delete\<close> stops
  there and returns the error wrapped with a message that contains the name of the
  bastion host and the resource group.
\<close>

theorem Delete_other_error_aborts:
  assumes specs: "BastionSpecs s = before @ bastionSpec # rest"
      and reach: "Delete_range s before st0 = (Proceed (), st)"
      and call: "Client_Delete s (ResourceGroup s) (Name bastionSpec) (world st) = (Some e, w)"
      and other: "\<not> ResourceNotFound s (Some e)"
  shows "\<exists>err. Delete s st0 =
           (Some err,
            \<lparr>world = w,
             trace = trace st @
               [BastionHostsDelete (ResourceGroup s) (Name bastionSpec) (Some e)]\<rparr>)
         \<and> err = withMessage e
                   (''failed to delete Bastion Host '' @ Name bastionSpec @
                    '' in resource group '' @ ResourceGroup s)
         \<and> Error pr err =
             ''failed to delete Bastion Host '' @ Name bastionSpec @
             '' in resource group '' @ ResourceGroup s @ '': '' @ Error pr e
         \<and> sublist (Name bastionSpec) (Error pr err)
         \<and> sublist (ResourceGroup s) (Error pr err)"
proof -
  have "Delete_body s bastionSpec st =
          (Return (Some (withMessage e
             (''failed to delete Bastion Host '' @ Name bastionSpec @
              '' in resource group '' @ ResourceGroup s))),
           \<lparr>world = w,
            trace = trace st @
              [BastionHostsDelete (ResourceGroup s) (Name bastionSpec) (Some e)]\<rparr>)"
    using call other by (simp add: Delete_body_def call_Delete_def Wrapf_delete_def Wrap_def)
  then have run: "Delete s st0 =
          (Some (withMessage e
             (''failed to delete Bastion Host '' @ Name bastionSpec @
              '' in resource group '' @ ResourceGroup s)),
           \<lparr>world = w,
            trace = trace st @
              [BastionHostsDelete (ResourceGroup s) (Name bastionSpec) (Some e)]\<rparr>)"
    by (simp add: Delete_at [OF specs reach])
  have msg: "Error pr (withMessage e
             (''failed to delete Bastion Host '' @ Name bastionSpec @
              '' in resource group '' @ ResourceGroup s)) =
             ''failed to delete Bastion Host '' @ Name bastionSpec @
             '' in resource group '' @ ResourceGroup s @ '': '' @ Error pr e"
    by (simp only: Error.simps append_assoc)
  let ?err = "withMessage e
             (''failed to delete Bastion Host '' @ Name bastionSpec @
              '' in resource group '' @ ResourceGroup s)"
  have "Delete s st0 =
           (Some ?err,
            \<lparr>world = w,
             trace = trace st @
               [BastionHostsDelete (ResourceGroup s) (Name bastionSpec) (Some e)]\<rparr>)
         \<and> ?err = withMessage e
                   (''failed to delete Bastion Host '' @ Name bastionSpec @
                    '' in resource group '' @ ResourceGroup s)
         \<and> Error pr ?err =
             ''failed to delete Bastion Host '' @ Name bastionSpec @
             '' in resource group '' @ ResourceGroup s @ '': '' @ Error pr e
         \<and> sublist (Name bastionSpec) (Error pr ?err)
         \<and> sublist (ResourceGroup s) (Error pr ?err)"
    using run msg
      sublist_Wrapf_delete [where a = "Name bastionSpec" and b = "ResourceGroup s"
        and rest = "'': '' @ Error pr e"]
    by (simp only: simp_thms)
  then show ?thesis
    by (rule exI [where x = ?err])
qed

theorem Delete_other_error_aborts_witness:
  "\<forall>U.
   (Delete (fake U [b1, b2])
     \<lparr>world = cloud0\<lparr>bastionHosts := [''B1'', ''B2''], outage := [''bastionHosts'']\<rparr>,
      trace = []\<rparr> =
     (Some (withMessage (Base 500)
        ''failed to delete Bastion Host B1 in resource group rg''),
      \<lparr>world = cloud0\<lparr>bastionHosts := [''B1'', ''B2''], outage := [''bastionHosts'']\<rparr>,
       trace = [BastionHostsDelete ''rg'' ''B1'' (Some (Base 500))]\<rparr>)
   \<and> Error (\<lambda>n. ''status'') (withMessage (Base (500::nat))
        ''failed to delete Bastion Host B1 in resource group rg'') =
       ''failed to delete Bastion Host B1 in resource group rg: status'')"
  (is "\<forall>U. ?P U")
proof (rule allI)
  fix U
  show "?P U"
  proof -
  let ?s = "fake U [b1, b2]"
  let ?init = "\<lparr>world = cloud0\<lparr>bastionHosts := [''B1'', ''B2''], outage := [''bastionHosts'']\<rparr>,
               trace = []\<rparr>"
  have specs: "BastionSpecs ?s = [] @ b1 # [b2]"
    by (simp add: fake_def)
  have reach: "Delete_range ?s [] ?init = (Proceed (), ?init)"
    by simp
  have call: "Client_Delete ?s (ResourceGroup ?s) (Name b1) (world ?init)
      = (Some (Base 500), world ?init)"
    by (simp add: fake_def b1_def cloud0_def)
  have other: "\<not> ResourceNotFound ?s (Some (Base 500))"
    by (simp add: fake_def)
  show ?thesis
    using Delete_other_error_aborts [OF specs reach call other, of "\<lambda>n. ''status''"]
    by (auto simp add: fake_simps b1_def)
  qed
qed

text \<open>
  C9. Every client call that \<open>Delete\<close> makes is a deletion through the bastion host
  client, in the resource group of the scope and for the name of one of the
  specifications: the subnet client and the public IP client are never called, so no
  public IP is removed.
\<close>

theorem Delete_calls_only_bastion_delete:
  assumes "Delete s st0 = (res, fin)"
  shows "\<exists>evs. trace fin = trace st0 @ evs \<and>
           (\<forall>ev\<in>set evs. is_BastionHostsDelete ev \<and>
              (\<exists>b\<in>set (BastionSpecs s). \<exists>r.
                 ev = BastionHostsDelete (ResourceGroup s) (Name b) r))"
proof -
  obtain fl where "Delete_range s (BastionSpecs s) st0 = (fl, fin)"
    using assms by (auto simp: Delete_def split: prod.splits flow.splits)
  from Delete_range_trace [OF this] show ?thesis
    by fastforce
qed

theorem Delete_calls_only_bastion_delete_witness:
  "\<forall>U.
   (Delete (fake U [b1, b2])
     \<lparr>world = cloud0\<lparr>publicIPs := [''Pip1'', ''Pip2''], bastionHosts := [''B1'', ''B2'']\<rparr>,
      trace = []\<rparr> =
     (None,
      \<lparr>world = cloud0\<lparr>publicIPs := [''Pip1'', ''Pip2''], bastionHosts := []\<rparr>,
       trace = [BastionHostsDelete ''rg'' ''B1'' None, BastionHostsDelete ''rg'' ''B2'' None]\<rparr>)
   \<and> (\<exists>evs. [BastionHostsDelete ''rg'' ''B1'' None, BastionHostsDelete ''rg'' ''B2'' None]
                = [] @ evs \<and>
           (\<forall>ev\<in>set evs. is_BastionHostsDelete ev \<and>
              (\<exists>b\<in>set [b1, b2]. \<exists>r.
                 ev = (BastionHostsDelete ''rg'' (Name b) r :: (nat, BuildParams) event)))))"
  (is "\<forall>U. ?P U")
proof (rule allI)
  fix U
  show "?P U"
  proof -
  let ?s = "fake U [b1, b2]"
  let ?init = "\<lparr>world = cloud0\<lparr>publicIPs := [''Pip1'', ''Pip2''],
                               bastionHosts := [''B1'', ''B2'']\<rparr>,
                trace = []\<rparr>"
  have run: "Delete ?s ?init =
     (None,
      \<lparr>world = cloud0\<lparr>publicIPs := [''Pip1'', ''Pip2''], bastionHosts := []\<rparr>,
       trace = [BastionHostsDelete ''rg'' ''B1'' None, BastionHostsDelete ''rg'' ''B2'' None]\<rparr>)"
    by (simp add: Delete_def Delete_body_def call_Delete_def fake_def b1_def b2_def cloud0_def)
  show ?thesis
    using run Delete_calls_only_bastion_delete [OF run]
    by (simp add: fake_simps)
  qed
qed

section \<open>The empty batch\<close>

text \<open>
  C10. When the scope supplies no bastion specification, \<open>Reconcile\<close> and \<open>Delete\<close>
  both return \<^verbatim>\<open>nil\<close> and leave the state of the run, and so the record of client
  calls, as it was.
\<close>

theorem empty_batch:
  assumes "BastionSpecs s = []"
  shows "Reconcile s st = (None, st) \<and> Delete s st = (None, st)"
  using assms by (simp add: Reconcile_def Delete_def)

theorem empty_batch_witness:
  "\<forall>U.
   (Reconcile (fake U []) \<lparr>world = cloud0, trace = []\<rparr> = (None, \<lparr>world = cloud0, trace = []\<rparr>) \<and>
   Delete (fake U []) \<lparr>world = cloud0, trace = []\<rparr> = (None, \<lparr>world = cloud0, trace = []\<rparr>))"
  (is "\<forall>U. ?P U")
proof (rule allI)
  fix U
  show "?P U"
  proof -
  have "BastionSpecs (fake U []) = []"
    by (simp add: fake_def)
  then show ?thesis
    by (rule empty_batch)
  qed
qed

end
